theory Spec2Isabelle
  imports Main "HOL-Library.Word"
begin

unbundle bit_operations_syntax

section \<open>Data model of planner/core/point\_get\_plan.go\<close>

text \<open>
  The fast-path planner of \<^verbatim>\<open>planner/core/point_get_plan.go\<close>, embedded function by
  function. Go pointers that may be nil are options, the other pointers are plain values.
  Types of other packages (\<^verbatim>\<open>model\<close>, \<^verbatim>\<open>ast\<close>, \<^verbatim>\<open>types\<close>, \<^verbatim>\<open>expression\<close>) are given
  with the fields this file reads; where two Go structs share a field name, the
  Isabelle field carries a short prefix.
\<close>

subsection \<open>Package model and types\<close>

text \<open>\<^verbatim>\<open>model.CIStr\<close>: the original string \<^verbatim>\<open>O\<close> and its lower-cased form \<^verbatim>\<open>L\<close>.\<close>

record CIStr =
  ci_O :: string
  ci_L :: string

definition zeroCIStr :: CIStr where
  "zeroCIStr = \<lparr>ci_O = [], ci_L = []\<rparr>"

datatype SchemaState =
  StateNone | StateDeleteOnly | StateWriteOnly | StateWriteReorganization
  | StateDeleteReorganization | StatePublic

datatype Kind =
  KindNull | KindInt64 | KindUint64 | KindFloat64 | KindString | KindBytes
  | KindMysqlDecimal | KindOther nat

text \<open>
  \<^verbatim>\<open>types.Datum\<close>: the kind byte \<^verbatim>\<open>k\<close>, the 64-bit payload \<^verbatim>\<open>i\<close> (read by
  \<^verbatim>\<open>GetInt64\<close> and holding the bits of an unsigned value too) and the byte payload
  \<^verbatim>\<open>b\<close>. The zero value has kind \<^verbatim>\<open>KindNull\<close>.
\<close>

record Datum =
  datum_k :: Kind
  datum_i :: "64 word"
  datum_b :: string

definition zeroDatum :: Datum where
  "zeroDatum = \<lparr>datum_k = KindNull, datum_i = 0, datum_b = []\<rparr>"

definition IsNull :: "Datum \<Rightarrow> bool" where
  "IsNull d = (datum_k d = KindNull)"

definition GetInt64 :: "Datum \<Rightarrow> 64 word" where
  "GetInt64 d = datum_i d"

record FieldType =
  Tp :: "8 word"
  Flag :: "64 word"

text \<open>\<^verbatim>\<open>mysql.PriKeyFlag = 1 << 1\<close> and \<^verbatim>\<open>mysql.UnsignedFlag = 1 << 5\<close>.\<close>

definition PriKeyFlag :: "64 word" where
  "PriKeyFlag = 2"

definition UnsignedFlag :: "64 word" where
  "UnsignedFlag = 32"

definition HasPriKeyFlag :: "64 word \<Rightarrow> bool" where
  "HasPriKeyFlag flag = (flag AND PriKeyFlag \<noteq> 0)"

definition HasUnsignedFlag :: "64 word \<Rightarrow> bool" where
  "HasUnsignedFlag flag = (flag AND UnsignedFlag \<noteq> 0)"

record ColumnInfo =
  col_ID :: int
  col_Name :: CIStr
  col_Offset :: int
  col_FieldType :: FieldType
  col_State :: SchemaState
  col_GeneratedExprString :: string

definition IsGenerated :: "ColumnInfo \<Rightarrow> bool" where
  "IsGenerated c = (col_GeneratedExprString c \<noteq> [])"

record IndexColumn =
  ic_Name :: CIStr
  ic_Offset :: int
  ic_Length :: int

record IndexInfo =
  idx_ID :: int
  idx_Name :: CIStr
  idx_Columns :: "IndexColumn list"
  idx_Unique :: bool
  idx_State :: SchemaState

text \<open>\<^verbatim>\<open>types.UnspecifiedLength = -1\<close>; an index column with any other length is a prefix.\<close>

definition HasPrefixIndex :: "IndexInfo \<Rightarrow> bool" where
  "HasPrefixIndex idx = (\<exists>ic \<in> set (idx_Columns idx). ic_Length ic \<noteq> - 1)"

datatype PartitionInfo = PartitionInfo nat

record TableInfo =
  tbl_ID :: int
  tbl_Name :: CIStr
  tbl_Columns :: "ColumnInfo list"
  tbl_Indices :: "IndexInfo list"
  tbl_PKIsHandle :: bool
  tbl_Partition :: "PartitionInfo option"

text \<open>
  Modelled from the spec: \<^verbatim>\<open>TableInfo.GetPartitionInfo\<close> of package \<^verbatim>\<open>model\<close> is not
  part of this file; the spec calls its non-nil result "partitioning metadata", so the
  accessor returns the table's partition field.
\<close>

definition GetPartitionInfo :: "TableInfo \<Rightarrow> PartitionInfo option" where
  "GetPartitionInfo tbl = tbl_Partition tbl"

subsection \<open>Package ast\<close>

datatype Op = LogicAnd | LogicOr | EQ | NE | LT | GT | OtherOp nat

record ParamMarkerExpr =
  pm_Datum :: Datum
  pm_Order :: nat

record ColumnName =
  cn_Schema :: CIStr
  cn_Table :: CIStr
  cn_Name :: CIStr

text \<open>
  The expression nodes this file distinguishes; every other node kind is \<open>OtherExpr\<close>.
  \<open>PatternInExpr\<close> carries \<^verbatim>\<open>Expr\<close>, \<^verbatim>\<open>List\<close> and \<^verbatim>\<open>Not\<close>.
\<close>

datatype ExprNode =
  BinaryOperationExpr Op ExprNode ExprNode
  | ColumnNameExpr ColumnName
  | ValueExpr Datum
  | ParamMarkerExprNode ParamMarkerExpr
  | PatternInExpr ExprNode "ExprNode list" bool
  | RowExpr "ExprNode list"
  | OtherExpr nat

record WildCardField =
  wc_Table :: CIStr
  wc_Schema :: CIStr

record SelectField =
  sf_WildCard :: "WildCardField option"
  sf_Expr :: "ExprNode option"
  sf_AsName :: CIStr

record TableName =
  tn_Schema :: CIStr
  tn_Name :: CIStr
  tn_TableInfo :: "TableInfo option"

datatype ResultSetNode =
  TableSource ResultSetNode CIStr
  | TableNameNode TableName
  | OtherResultSetNode nat

record Join =
  join_Left :: ResultSetNode
  join_Right :: "ResultSetNode option"

record TableRefsClause =
  TableRefs :: "Join option"

datatype SelectLockType = SelectLockNone | SelectLockForUpdate | SelectLockInShareMode

datatype GroupByClause = GroupByClause "ExprNode list"
datatype HavingClause = HavingClause ExprNode
datatype OrderByClause = OrderByClause "ExprNode list"
datatype WindowSpec = WindowSpec nat
datatype SelectStmtOpts = SelectStmtOpts nat

record Limit =
  lim_Count :: "ExprNode option"
  lim_Offset :: "ExprNode option"

record SelectStmt =
  sel_SelectStmtOpts :: "SelectStmtOpts option"
  sel_Distinct :: bool
  sel_From :: "TableRefsClause option"
  sel_Where :: "ExprNode option"
  sel_Fields :: "SelectField list"
  sel_GroupBy :: "GroupByClause option"
  sel_Having :: "HavingClause option"
  sel_WindowSpecs :: "WindowSpec list"
  sel_OrderBy :: "OrderByClause option"
  sel_Limit :: "Limit option"
  sel_LockTp :: SelectLockType

record Assignment =
  asg_Column :: ColumnName
  asg_Expr :: ExprNode

record UpdateStmt =
  upd_TableRefs :: "TableRefsClause option"
  upd_List :: "Assignment list"
  upd_Where :: "ExprNode option"
  upd_Order :: "OrderByClause option"
  upd_Limit :: "Limit option"

record DeleteStmt =
  del_TableRefs :: "TableRefsClause option"
  del_Where :: "ExprNode option"
  del_Order :: "OrderByClause option"
  del_Limit :: "Limit option"
  del_IsMultiTable :: bool

datatype Node =
  SelectStmtNode SelectStmt
  | UpdateStmtNode UpdateStmt
  | DeleteStmtNode DeleteStmt
  | OtherNode nat

subsection \<open>Plans\<close>

text \<open>\<^verbatim>\<open>expression.Column\<close>; an \<^verbatim>\<open>expression.Schema\<close> is the list of its columns.\<close>

record Column =
  ec_ColName :: CIStr
  ec_OrigTblName :: CIStr
  ec_DBName :: CIStr
  ec_TblName :: CIStr
  ec_RetType :: FieldType
  ec_ID :: int
  ec_UniqueID :: int
  ec_Index :: nat

record PointGetPlan =
  schema :: "Column list"
  DBName :: CIStr
  TblInfo :: TableInfo
  IndexInfo :: "IndexInfo option"
  Handle :: "64 word"
  HandleParam :: "ParamMarkerExpr option"
  IndexValues :: "Datum list"
  IndexValueParams :: "ParamMarkerExpr option list"
  UnsignedHandle :: bool
  IsTableDual :: bool
  Lock :: bool
  IsForUpdate :: bool

record nameValuePair =
  colName :: string
  "value" :: Datum
  param :: "ParamMarkerExpr option"

definition zeroPair :: nameValuePair where
  "zeroPair = \<lparr>colName = [], value = zeroDatum, param = None\<rparr>"

record TblColPosInfo =
  TblID :: int
  Start :: nat
  End :: nat
  HandleOrdinal :: nat

text \<open>
  \<^verbatim>\<open>expression.Assignment\<close>; the type \<open>'e\<close> stands for \<^verbatim>\<open>expression.Expression\<close>,
  which this file only passes between functions of package \<^verbatim>\<open>expression\<close>.
\<close>

record 'e ExprAssignment =
  ea_Col :: Column
  ea_Expr :: 'e

text \<open>
  The plans \<^verbatim>\<open>TryFastPlan\<close> can return. \<open>PhysicalTableDual\<close> carries the schema set by
  \<^verbatim>\<open>SetSchema\<close> (none on the UPDATE and DELETE paths); \<open>PhysicalUnionAll\<close> carries
  \<^verbatim>\<open>IsPointGetUnion\<close>, its schema, its children and the expected count of each child's
  required property.
\<close>

datatype 'e Plan =
  PointGet (pointGetPlan: PointGetPlan)
  | PhysicalTableDual "Column list option"
  | PhysicalUnionAll (IsPointGetUnion: bool) (ua_schema: "Column list")
      (ua_children: "PointGetPlan list") (ua_chReqProps: "nat list")
  | Update (SelectPlan: PointGetPlan) (OrderedList: "'e ExprAssignment list")
      (TblColPosInfos: "TblColPosInfo list")
  | Delete (SelectPlan: PointGetPlan) (TblColPosInfos: "TblColPosInfo list")

subsection \<open>Collaborators and session\<close>

datatype error = ErrOverflow | ErrTruncatedWrongVal | ErrPrivilegeCheckFail | ErrOther nat

datatype PrivilegeType = SelectPriv | UpdatePriv | DeletePriv | OtherPriv nat

text \<open>
  Functions and constants of other packages that this file calls, taken as parameters:
  \<^verbatim>\<open>Datum.ConvertTo\<close> and \<^verbatim>\<open>Datum.CompareDatum\<close> (package \<^verbatim>\<open>types\<close>, under the
  session's statement context), \<^verbatim>\<open>extractLimitCountOffset\<close> (the logical plan
  builder), \<^verbatim>\<open>model.NewCIStr\<close>, \<^verbatim>\<open>Schema.FindColumn\<close>,
  \<^verbatim>\<open>expression.RewriteSimpleExprWithSchema\<close>, \<^verbatim>\<open>expression.BuildCastFunction\<close>,
  \<^verbatim>\<open>Expression.ResolveIndices\<close>, \<^verbatim>\<open>model.ExtraHandleName\<close> and
  \<^verbatim>\<open>model.NewExtraHandleColInfo\<close>. A Go result \<^verbatim>\<open>(v, err)\<close> whose value is read
  even when \<^verbatim>\<open>err\<close> is set is a pair; otherwise it is a sum with the error on the left.
\<close>

record 'e collaborators =
  ConvertTo :: "Datum \<Rightarrow> FieldType \<Rightarrow> Datum \<times> error option"
  CompareDatum :: "Datum \<Rightarrow> Datum \<Rightarrow> error + int"
  extractLimitCountOffset :: "Limit \<Rightarrow> error + nat \<times> nat"
  NewCIStr :: "string \<Rightarrow> CIStr"
  FindColumn :: "Column list \<Rightarrow> ColumnName \<Rightarrow> error + Column option"
  RewriteSimpleExprWithSchema :: "ExprNode \<Rightarrow> Column list \<Rightarrow> error + 'e"
  BuildCastFunction :: "'e \<Rightarrow> FieldType \<Rightarrow> 'e"
  ResolveIndices :: "'e \<Rightarrow> Column list \<Rightarrow> error + 'e"
  ExtraHandleName :: CIStr
  NewExtraHandleColInfo :: ColumnInfo

record TableEntry =
  te_DB :: string
  te_Table :: string

type_synonym verification = "string list \<times> string \<times> string \<times> string \<times> PrivilegeType"

type_synonym privilegeManager =
  "string list \<Rightarrow> string \<Rightarrow> string \<Rightarrow> string \<Rightarrow> PrivilegeType \<Rightarrow> bool"

text \<open>
  The session state this file touches through \<^verbatim>\<open>sessionctx.Context\<close>: the session
  variables it reads, the table list of the statement context that \<^verbatim>\<open>newPointGetPlan\<close>
  overwrites, and the privilege manager, if one is installed. \<open>Verifications\<close> records
  the arguments of every \<^verbatim>\<open>RequestVerification\<close> call, in order, so that the calls made
  to that collaborator can be stated.
\<close>

record sessionctx =
  CurrentDB :: string
  ActiveRoles :: "string list"
  IsAutocommit :: bool
  InTxn :: bool
  IsPessimistic :: bool
  StmtCtx_Tables :: "TableEntry list"
  PrivilegeManager :: "privilegeManager option"
  Verifications :: "verification list"

datatype panic = PanicTypeAssertion | PanicIndexOutOfRange

section \<open>The functions of point\_get\_plan.go\<close>

subsection \<open>Table and predicate extraction\<close>

definition getSingleTableNameAndAlias :: "TableRefsClause option \<Rightarrow> TableName option \<times> CIStr" where
  "getSingleTableNameAndAlias tableRefs =
     (case tableRefs of
        None \<Rightarrow> (None, zeroCIStr)
      | Some refs \<Rightarrow>
          (case TableRefs refs of
             None \<Rightarrow> (None, zeroCIStr)
           | Some j \<Rightarrow>
               if join_Right j \<noteq> None then (None, zeroCIStr)
               else (case join_Left j of
                       TableSource src asName \<Rightarrow>
                         (case src of
                            TableNameNode tblName \<Rightarrow>
                              (Some tblName,
                               if ci_L asName = [] then tn_Name tblName else asName)
                          | _ \<Rightarrow> (None, zeroCIStr))
                     | _ \<Rightarrow> (None, zeroCIStr))))"

text \<open>
  The type switch on the value side of an equality: a \<^verbatim>\<open>ValueExpr\<close> gives its datum,
  a \<^verbatim>\<open>ParamMarkerExpr\<close> its datum and itself, anything else leaves the zero datum.
\<close>

definition valueOperand :: "ExprNode \<Rightarrow> Datum \<times> ParamMarkerExpr option" where
  "valueOperand x =
     (case x of
        ValueExpr d \<Rightarrow> (d, None)
      | ParamMarkerExprNode p \<Rightarrow> (pm_Datum p, Some p)
      | _ \<Rightarrow> (zeroDatum, None))"

text \<open>A nil slice is \<open>None\<close>; the slice passed in is never nil.\<close>

fun getNameValuePairs :: "nameValuePair list \<Rightarrow> CIStr \<Rightarrow> ExprNode \<Rightarrow> nameValuePair list option" where
  "getNameValuePairs nvPairs tblName (BinaryOperationExpr op l r) =
     (if op = LogicAnd then
        (case getNameValuePairs nvPairs tblName l of
           None \<Rightarrow> None
         | Some nvPairs1 \<Rightarrow> getNameValuePairs nvPairs1 tblName r)
      else if op = EQ then
        (case (case l of
                 ColumnNameExpr cn \<Rightarrow> Some (cn, valueOperand r)
               | _ \<Rightarrow> (case r of
                         ColumnNameExpr cn \<Rightarrow> Some (cn, valueOperand l)
                       | _ \<Rightarrow> None)) of
           None \<Rightarrow> None
         | Some (cn, d, prm) \<Rightarrow>
             if IsNull d then None
             else if ci_L (cn_Table cn) \<noteq> [] \<and> ci_L (cn_Table cn) \<noteq> ci_L tblName then None
             else Some (nvPairs @ [\<lparr>colName = ci_L (cn_Name cn), value = d, param = prm\<rparr>]))
      else None)"
| "getNameValuePairs nvPairs tblName _ = None"

text \<open>The index of the first pair with the name; \<open>None\<close> is Go's \<^verbatim>\<open>-1\<close>.\<close>

fun findInPairs :: "string \<Rightarrow> nameValuePair list \<Rightarrow> nat option" where
  "findInPairs name [] = None"
| "findInPairs name (pair # pairs) =
     (if colName pair = name then Some 0 else map_option Suc (findInPairs name pairs))"

definition findPKHandle :: "TableInfo \<Rightarrow> nameValuePair list \<Rightarrow> nameValuePair \<times> FieldType option" where
  "findPKHandle tblInfo pairs =
     (if \<not> tbl_PKIsHandle tblInfo then (zeroPair, None)
      else (case find (\<lambda>col. HasPriKeyFlag (Flag (col_FieldType col))) (tbl_Columns tblInfo) of
              None \<Rightarrow> (zeroPair, None)
            | Some col \<Rightarrow>
                (case findInPairs (ci_L (col_Name col)) pairs of
                   None \<Rightarrow> (zeroPair, None)
                 | Some i \<Rightarrow> (pairs ! i, Some (col_FieldType col)))))"

fun getIndexValues_loop ::
  "IndexColumn list \<Rightarrow> nameValuePair list \<Rightarrow> Datum list \<Rightarrow> ParamMarkerExpr option list
    \<Rightarrow> (Datum list \<times> ParamMarkerExpr option list) option" where
  "getIndexValues_loop [] pairs idxValues idxValueParams = Some (idxValues, idxValueParams)"
| "getIndexValues_loop (idxCol # idxCols) pairs idxValues idxValueParams =
     (case findInPairs (ci_L (ic_Name idxCol)) pairs of
        None \<Rightarrow> None
      | Some i \<Rightarrow>
          getIndexValues_loop idxCols pairs
            (idxValues @ [value (pairs ! i)]) (idxValueParams @ [param (pairs ! i)]))"

definition getIndexValues ::
  "IndexInfo \<Rightarrow> nameValuePair list \<Rightarrow> (Datum list \<times> ParamMarkerExpr option list) option" where
  "getIndexValues idxInfo pairs =
     (if length (idx_Columns idxInfo) \<noteq> length pairs then None
      else if HasPrefixIndex idxInfo then None
      else (case getIndexValues_loop (idx_Columns idxInfo) pairs [] [] of
              None \<Rightarrow> None
            | Some (idxValues, idxValueParams) \<Rightarrow>
                if length idxValues > 0 then Some (idxValues, idxValueParams) else None))"

subsection \<open>Schema projection\<close>

definition findCol :: "TableInfo \<Rightarrow> ColumnName \<Rightarrow> ColumnInfo option" where
  "findCol tbl cn = find (\<lambda>col. ci_L (col_Name col) = ci_L (cn_Name cn)) (tbl_Columns tbl)"

definition colInfoToColumn ::
  "CIStr \<Rightarrow> CIStr \<Rightarrow> CIStr \<Rightarrow> CIStr \<Rightarrow> ColumnInfo \<Rightarrow> nat \<Rightarrow> Column" where
  "colInfoToColumn db origTblName tblName asName col idx =
     \<lparr>ec_ColName = asName, ec_OrigTblName = origTblName, ec_DBName = db,
      ec_TblName = tblName, ec_RetType = col_FieldType col, ec_ID = col_ID col,
      ec_UniqueID = col_Offset col, ec_Index = idx\<rparr>"

text \<open>The inner loop over \<^verbatim>\<open>tbl.Columns\<close>: each column is appended at the current length.\<close>

definition appendTableColumns :: "CIStr \<Rightarrow> TableInfo \<Rightarrow> CIStr \<Rightarrow> Column list \<Rightarrow> Column list" where
  "appendTableColumns dbName tbl tblName columns =
     foldl (\<lambda>cols col.
              cols @ [colInfoToColumn dbName (tbl_Name tbl) tblName (col_Name col) col (length cols)])
       columns (tbl_Columns tbl)"

fun buildSchemaFromFields_loop ::
  "CIStr \<Rightarrow> TableInfo \<Rightarrow> CIStr \<Rightarrow> SelectField list \<Rightarrow> Column list \<Rightarrow> Column list option" where
  "buildSchemaFromFields_loop dbName tbl tblName [] columns = Some columns"
| "buildSchemaFromFields_loop dbName tbl tblName (field # flds) columns =
     (case sf_WildCard field of
        Some wc \<Rightarrow>
          if ci_L (wc_Table wc) \<noteq> [] \<and> ci_L (wc_Table wc) \<noteq> ci_L tblName then None
          else buildSchemaFromFields_loop dbName tbl tblName flds
                 (appendTableColumns dbName tbl tblName columns)
      | None \<Rightarrow>
          (case sf_Expr field of
             Some (ColumnNameExpr cn) \<Rightarrow>
               if ci_L (cn_Table cn) \<noteq> [] \<and> ci_L (cn_Table cn) \<noteq> ci_L tblName then None
               else (case findCol tbl cn of
                       None \<Rightarrow> None
                     | Some col \<Rightarrow>
                         buildSchemaFromFields_loop dbName tbl tblName flds
                           (columns @
                            [colInfoToColumn dbName (tbl_Name tbl) tblName
                               (if ci_L (sf_AsName field) \<noteq> [] then sf_AsName field
                                else col_Name col)
                               col (length columns)]))
           | _ \<Rightarrow> None))"

definition buildSchemaFromFields ::
  "'e collaborators \<Rightarrow> sessionctx \<Rightarrow> CIStr \<Rightarrow> TableInfo \<Rightarrow> CIStr \<Rightarrow> SelectField list
    \<Rightarrow> Column list option" where
  "buildSchemaFromFields E ctx dbName tbl tblName flds =
     (let dbName1 = (if ci_L dbName = [] then NewCIStr E (CurrentDB ctx) else dbName)
      in if length flds > 0 then buildSchemaFromFields_loop dbName1 tbl tblName flds []
         else Some (appendTableColumns dbName1 tbl tblName []))"

subsection \<open>Plan construction and the privilege check\<close>

text \<open>
  \<^verbatim>\<open>newPointGetPlan\<close> returns the plan with every other field at its zero value and
  overwrites the table list of the statement context.
\<close>

definition newPointGetPlan ::
  "sessionctx \<Rightarrow> Column list \<Rightarrow> CIStr \<Rightarrow> TableInfo \<Rightarrow> PointGetPlan \<times> sessionctx" where
  "newPointGetPlan ctx sch dbName tbl =
     (\<lparr>schema = sch, DBName = dbName, TblInfo = tbl, IndexInfo = None, Handle = 0,
       HandleParam = None, IndexValues = [], IndexValueParams = [], UnsignedHandle = False,
       IsTableDual = False, Lock = False, IsForUpdate = False\<rparr>,
      ctx\<lparr>StmtCtx_Tables := [\<lparr>te_DB = CurrentDB ctx, te_Table = ci_L (tbl_Name tbl)\<rparr>]\<rparr>)"

fun checkFastPlanPrivilege_loop ::
  "privilegeManager \<Rightarrow> sessionctx \<Rightarrow> PointGetPlan \<Rightarrow> PrivilegeType list
    \<Rightarrow> error option \<times> sessionctx" where
  "checkFastPlanPrivilege_loop pm ctx fastPlan [] = (None, ctx)"
| "checkFastPlanPrivilege_loop pm ctx fastPlan (checkType # checkTypes) =
     (let ctx1 = ctx\<lparr>Verifications := Verifications ctx @
                   [(ActiveRoles ctx, CurrentDB ctx, ci_L (tbl_Name (TblInfo fastPlan)), [],
                     checkType)]\<rparr>
      in if \<not> pm (ActiveRoles ctx) (CurrentDB ctx) (ci_L (tbl_Name (TblInfo fastPlan))) []
                 checkType
         then (Some ErrPrivilegeCheckFail, ctx1)
         else checkFastPlanPrivilege_loop pm ctx1 fastPlan checkTypes)"

definition checkFastPlanPrivilege ::
  "sessionctx \<Rightarrow> PointGetPlan \<Rightarrow> PrivilegeType list \<Rightarrow> error option \<times> sessionctx" where
  "checkFastPlanPrivilege ctx fastPlan checkTypes =
     (case PrivilegeManager ctx of
        None \<Rightarrow> (None, ctx)
      | Some pm \<Rightarrow> checkFastPlanPrivilege_loop pm ctx fastPlan checkTypes)"

subsection \<open>tryPointGetPlan\<close>

text \<open>The loop over \<^verbatim>\<open>tbl.Indices\<close>: the first unique, public index whose values are found decides.\<close>

fun tryPointGetPlan_indices ::
  "'e collaborators \<Rightarrow> sessionctx \<Rightarrow> TableName \<Rightarrow> TableInfo \<Rightarrow> CIStr \<Rightarrow> CIStr
    \<Rightarrow> SelectField list \<Rightarrow> nameValuePair list \<Rightarrow> IndexInfo list
    \<Rightarrow> PointGetPlan option \<times> sessionctx" where
  "tryPointGetPlan_indices E ctx tblName tbl tblAlias dbName flds pairs [] = (None, ctx)"
| "tryPointGetPlan_indices E ctx tblName tbl tblAlias dbName flds pairs (idxInfo # idxs) =
     (if \<not> idx_Unique idxInfo then
        tryPointGetPlan_indices E ctx tblName tbl tblAlias dbName flds pairs idxs
      else if idx_State idxInfo \<noteq> StatePublic then
        tryPointGetPlan_indices E ctx tblName tbl tblAlias dbName flds pairs idxs
      else (case getIndexValues idxInfo pairs of
              None \<Rightarrow> tryPointGetPlan_indices E ctx tblName tbl tblAlias dbName flds pairs idxs
            | Some (idxValues, idxValueParams) \<Rightarrow>
                (case buildSchemaFromFields E ctx (tn_Schema tblName) tbl tblAlias flds of
                   None \<Rightarrow> (None, ctx)
                 | Some sch \<Rightarrow>
                     (case newPointGetPlan ctx sch dbName tbl of
                        (p, ctx1) \<Rightarrow>
                          (Some (p\<lparr>IndexInfo := Some idxInfo, IndexValues := idxValues,
                                   IndexValueParams := idxValueParams\<rparr>), ctx1)))))"

text \<open>
  \<^verbatim>\<open>findPKHandle\<close> returns a nil field type only together with the zero pair, whose
  kind is \<^verbatim>\<open>KindNull\<close>, so the handle branch never meets a nil field type (lemma
  \<open>findPKHandle_fieldType\<close> below); the model returns no plan there.
\<close>

definition tryPointGetPlan ::
  "'e collaborators \<Rightarrow> sessionctx \<Rightarrow> SelectStmt \<Rightarrow> PointGetPlan option \<times> sessionctx" where
  "tryPointGetPlan E ctx selStmt =
     (if sel_Having selStmt \<noteq> None then (None, ctx)
      else if (case sel_Limit selStmt of
                 None \<Rightarrow> False
               | Some lim \<Rightarrow>
                   (case extractLimitCountOffset E lim of
                      Inl err \<Rightarrow> True
                    | Inr (count, offset) \<Rightarrow> count = 0 \<or> offset > 0))
      then (None, ctx)
      else (case getSingleTableNameAndAlias (sel_From selStmt) of
              (None, tblAlias) \<Rightarrow> (None, ctx)
            | (Some tblName, tblAlias) \<Rightarrow>
                (case tn_TableInfo tblName of
                   None \<Rightarrow> (None, ctx)
                 | Some tbl \<Rightarrow>
                     (let dbName = (if ci_L (tn_Schema tblName) = []
                                    then NewCIStr E (CurrentDB ctx) else tn_Schema tblName)
                      in if GetPartitionInfo tbl \<noteq> None then (None, ctx)
                         else if list_ex (\<lambda>col. IsGenerated col \<or> col_State col \<noteq> StatePublic)
                                   (tbl_Columns tbl)
                         then (None, ctx)
                         else (case (case sel_Where selStmt of
                                       None \<Rightarrow> None
                                     | Some e \<Rightarrow> getNameValuePairs [] tblAlias e) of
                                 None \<Rightarrow> (None, ctx)
                               | Some pairs \<Rightarrow>
                                   (case findPKHandle tbl pairs of
                                      (handlePair, fieldType) \<Rightarrow>
   if datum_k (value handlePair) \<noteq> KindNull \<and> length pairs = 1 then
     (case buildSchemaFromFields E ctx (tn_Schema tblName) tbl tblAlias (sel_Fields selStmt) of
        None \<Rightarrow> (None, ctx)
      | Some sch \<Rightarrow>
          (case newPointGetPlan ctx sch dbName tbl of
             (p, ctx1) \<Rightarrow>
               (case fieldType of
                  None \<Rightarrow> (None, ctx1)
                | Some ft \<Rightarrow>
                    (case ConvertTo E (value handlePair) ft of
                       (intDatum, err) \<Rightarrow>
                         if err = Some ErrOverflow then (Some (p\<lparr>IsTableDual := True\<rparr>), ctx1)
                         else if err \<noteq> None \<and> err \<noteq> Some ErrTruncatedWrongVal then (None, ctx1)
                         else (case CompareDatum E intDatum (value handlePair) of
                                 Inl err2 \<Rightarrow> (None, ctx1)
                               | Inr cmp \<Rightarrow>
                                   if cmp \<noteq> 0 then (Some (p\<lparr>IsTableDual := True\<rparr>), ctx1)
                                   else (Some (p\<lparr>Handle := GetInt64 intDatum,
                                                  UnsignedHandle := HasUnsignedFlag (Flag ft),
                                                  HandleParam := param handlePair\<rparr>), ctx1))))))
   else tryPointGetPlan_indices E ctx tblName tbl tblAlias dbName (sel_Fields selStmt) pairs
          (tbl_Indices tbl)))))))"

subsection \<open>UPDATE and DELETE\<close>

fun buildOrderedList_loop ::
  "'e collaborators \<Rightarrow> Column list \<Rightarrow> Assignment list \<Rightarrow> 'e ExprAssignment list
    \<Rightarrow> 'e ExprAssignment list option" where
  "buildOrderedList_loop E sch [] orderedList = Some orderedList"
| "buildOrderedList_loop E sch (assign # assigns) orderedList =
     (case FindColumn E sch (asg_Column assign) of
        Inl err \<Rightarrow> None
      | Inr None \<Rightarrow> None
      | Inr (Some col) \<Rightarrow>
          (case RewriteSimpleExprWithSchema E (asg_Expr assign) sch of
             Inl err \<Rightarrow> None
           | Inr expr \<Rightarrow>
               (case ResolveIndices E (BuildCastFunction E expr (ec_RetType col)) sch of
                  Inl err \<Rightarrow> None
                | Inr expr1 \<Rightarrow>
                    buildOrderedList_loop E sch assigns
                      (orderedList @ [\<lparr>ea_Col = col, ea_Expr = expr1\<rparr>]))))"

definition buildOrderedList ::
  "'e collaborators \<Rightarrow> PointGetPlan \<Rightarrow> Assignment list \<Rightarrow> 'e ExprAssignment list option" where
  "buildOrderedList E fastSelect assigns = buildOrderedList_loop E (schema fastSelect) assigns []"

text \<open>
  The loop of \<^verbatim>\<open>findHandleCol\<close> reads \<^verbatim>\<open>p.schema.Columns[i]\<close> at the position of every
  column with the primary-key flag and keeps the last one; an index past the schema panics.
\<close>

fun findHandleCol_loop ::
  "TableInfo \<Rightarrow> Column list \<Rightarrow> ColumnInfo list \<Rightarrow> nat \<Rightarrow> Column option \<Rightarrow> panic + Column option" where
  "findHandleCol_loop tbl sch [] i handleCol = Inr handleCol"
| "findHandleCol_loop tbl sch (col # cols) i handleCol =
     (if HasPriKeyFlag (Flag (col_FieldType col)) \<and> tbl_PKIsHandle tbl then
        (if i < length sch then findHandleCol_loop tbl sch cols (Suc i) (Some (sch ! i))
         else Inl PanicIndexOutOfRange)
      else findHandleCol_loop tbl sch cols (Suc i) handleCol)"

text \<open>Returns the handle column and the plan, whose schema may have grown by that column.\<close>

definition findHandleCol :: "'e collaborators \<Rightarrow> PointGetPlan \<Rightarrow> panic + (Column \<times> PointGetPlan)" where
  "findHandleCol E p =
     (case (if tbl_PKIsHandle (TblInfo p)
            then findHandleCol_loop (TblInfo p) (schema p) (tbl_Columns (TblInfo p)) 0 None
            else Inr None) of
        Inl pnc \<Rightarrow> Inl pnc
      | Inr (Some handleCol) \<Rightarrow> Inr (handleCol, p)
      | Inr None \<Rightarrow>
          (case schema p of
             [] \<Rightarrow> Inl PanicIndexOutOfRange
           | oneCol # cols \<Rightarrow>
               (let handleCol = colInfoToColumn (ec_DBName oneCol) (ec_OrigTblName oneCol)
                                  (ec_TblName oneCol) (ExtraHandleName E)
                                  (NewExtraHandleColInfo E) (length (schema p))
                in Inr (handleCol, p\<lparr>schema := schema p @ [handleCol]\<rparr>))))"

text \<open>
  The \<^verbatim>\<open>SelectStmt\<close> that \<^verbatim>\<open>tryUpdatePointPlan\<close> and \<^verbatim>\<open>tryDeletePointPlan\<close> build from
  the mutation: an empty field list, the table references, \<^verbatim>\<open>WHERE\<close>, \<^verbatim>\<open>ORDER BY\<close> and
  \<^verbatim>\<open>LIMIT\<close> of the statement, every other field zero.
\<close>

definition tryUpdatePointPlan_selStmt :: "UpdateStmt \<Rightarrow> SelectStmt" where
  "tryUpdatePointPlan_selStmt updateStmt =
     \<lparr>sel_SelectStmtOpts = None, sel_Distinct = False,
      sel_From = upd_TableRefs updateStmt, sel_Where = upd_Where updateStmt,
      sel_Fields = [], sel_GroupBy = None, sel_Having = None, sel_WindowSpecs = [],
      sel_OrderBy = upd_Order updateStmt, sel_Limit = upd_Limit updateStmt,
      sel_LockTp = SelectLockNone\<rparr>"

definition tryDeletePointPlan_selStmt :: "DeleteStmt \<Rightarrow> SelectStmt" where
  "tryDeletePointPlan_selStmt delStmt =
     \<lparr>sel_SelectStmtOpts = None, sel_Distinct = False,
      sel_From = del_TableRefs delStmt, sel_Where = del_Where delStmt,
      sel_Fields = [], sel_GroupBy = None, sel_Having = None, sel_WindowSpecs = [],
      sel_OrderBy = del_Order delStmt, sel_Limit = del_Limit delStmt,
      sel_LockTp = SelectLockNone\<rparr>"

definition tryUpdatePointPlan ::
  "'e collaborators \<Rightarrow> sessionctx \<Rightarrow> UpdateStmt \<Rightarrow> panic + ('e Plan option \<times> sessionctx)" where
  "tryUpdatePointPlan E ctx updateStmt =
     (case tryPointGetPlan E ctx
             (tryUpdatePointPlan_selStmt updateStmt) of
        (None, ctx1) \<Rightarrow> Inr (None, ctx1)
      | (Some fastSelect, ctx1) \<Rightarrow>
          (case checkFastPlanPrivilege ctx1 fastSelect [SelectPriv, UpdatePriv] of
             (Some err, ctx2) \<Rightarrow> Inr (None, ctx2)
           | (None, ctx2) \<Rightarrow>
               if IsTableDual fastSelect then Inr (Some (PhysicalTableDual None), ctx2)
               else (let fastSelect1 = (if IsPessimistic ctx2 then fastSelect\<lparr>Lock := True\<rparr>
                                        else fastSelect)
                     in case buildOrderedList E fastSelect1 (upd_List updateStmt) of
                          None \<Rightarrow> Inr (None, ctx2)
                        | Some orderedList \<Rightarrow>
                            (case findHandleCol E fastSelect1 of
                               Inl pnc \<Rightarrow> Inl pnc
                             | Inr (handleCol, fastSelect2) \<Rightarrow>
                                 Inr (Some (Update fastSelect2 orderedList
                                        [\<lparr>TblID = tbl_ID (TblInfo fastSelect2), Start = 0,
                                          End = length (schema fastSelect2),
                                          HandleOrdinal = ec_Index handleCol\<rparr>]), ctx2)))))"

definition tryDeletePointPlan ::
  "'e collaborators \<Rightarrow> sessionctx \<Rightarrow> DeleteStmt \<Rightarrow> panic + ('e Plan option \<times> sessionctx)" where
  "tryDeletePointPlan E ctx delStmt =
     (if del_IsMultiTable delStmt then Inr (None, ctx)
      else (case tryPointGetPlan E ctx
                   (tryDeletePointPlan_selStmt delStmt) of
              (None, ctx1) \<Rightarrow> Inr (None, ctx1)
            | (Some fastSelect, ctx1) \<Rightarrow>
                (case checkFastPlanPrivilege ctx1 fastSelect [SelectPriv, DeletePriv] of
                   (Some err, ctx2) \<Rightarrow> Inr (None, ctx2)
                 | (None, ctx2) \<Rightarrow>
                     if IsTableDual fastSelect then Inr (Some (PhysicalTableDual None), ctx2)
                     else (let fastSelect1 = (if IsPessimistic ctx2 then fastSelect\<lparr>Lock := True\<rparr>
                                              else fastSelect)
                           in case findHandleCol E fastSelect1 of
                                Inl pnc \<Rightarrow> Inl pnc
                              | Inr (handleCol, fastSelect2) \<Rightarrow>
                                  Inr (Some (Delete fastSelect2
                                         [\<lparr>TblID = tbl_ID (TblInfo fastSelect2), Start = 0,
                                           End = length (schema fastSelect2),
                                           HandleOrdinal = ec_Index handleCol\<rparr>]), ctx2)))))"

subsection \<open>TryFastPlan and the batch path\<close>

text \<open>
  The conjunction of per-position equalities that the row-tuple case of
  \<^verbatim>\<open>tryWhereIn2BatchPointGet\<close> builds; both lists are non-empty and of one length
  where it is called.
\<close>

definition rowWhere :: "ExprNode list \<Rightarrow> ExprNode list \<Rightarrow> ExprNode" where
  "rowWhere leftValues rightValues =
     foldl (\<lambda>w (l, r). BinaryOperationExpr LogicAnd w (BinaryOperationExpr EQ l r))
       (BinaryOperationExpr EQ (hd leftValues) (hd rightValues))
       (zip (tl leftValues) (tl rightValues))"

text \<open>
  The statement the batch path re-plans for every candidate: options, \<^verbatim>\<open>Distinct\<close>,
  \<^verbatim>\<open>From\<close> and \<^verbatim>\<open>Fields\<close> of the original, every other field zero.
\<close>

definition reusedSelectStmt :: "SelectStmt \<Rightarrow> SelectStmt" where
  "reusedSelectStmt selStmt =
     \<lparr>sel_SelectStmtOpts = sel_SelectStmtOpts selStmt, sel_Distinct = sel_Distinct selStmt,
      sel_From = sel_From selStmt, sel_Where = None, sel_Fields = sel_Fields selStmt,
      sel_GroupBy = None, sel_Having = None, sel_WindowSpecs = [], sel_OrderBy = None,
      sel_Limit = None, sel_LockTp = SelectLockNone\<rparr>"

text \<open>The measure of the mutual recursion: 1 on a top-level \<^verbatim>\<open>IN\<close> predicate, 0 otherwise.\<close>

definition isPatternIn :: "ExprNode option \<Rightarrow> nat" where
  "isPatternIn w = (case w of Some (PatternInExpr e l n) \<Rightarrow> 1 | _ \<Rightarrow> 0)"

text \<open>
  \<^verbatim>\<open>TryFastPlan\<close> calls \<^verbatim>\<open>tryWhereIn2BatchPointGet\<close>, whose two loops call
  \<^verbatim>\<open>TryFastPlan\<close> on the rewritten candidates. The type assertion
  \<^verbatim>\<open>fp.(*PointGetPlan)\<close> panics on any other plan.
\<close>

function TryFastPlan ::
    "'e collaborators \<Rightarrow> sessionctx \<Rightarrow> Node \<Rightarrow> panic + ('e Plan option \<times> sessionctx)"
  and tryWhereIn2BatchPointGet ::
    "'e collaborators \<Rightarrow> sessionctx \<Rightarrow> SelectStmt \<Rightarrow> panic + ('e Plan option \<times> sessionctx)"
  and tryWhereIn2BatchPointGet_columnLoop ::
    "'e collaborators \<Rightarrow> sessionctx \<Rightarrow> SelectStmt \<Rightarrow> ExprNode \<Rightarrow> ExprNode list
      \<Rightarrow> PointGetPlan list \<Rightarrow> nat list
      \<Rightarrow> panic + ((PointGetPlan list \<times> nat list) option \<times> sessionctx)"
  and tryWhereIn2BatchPointGet_rowLoop ::
    "'e collaborators \<Rightarrow> sessionctx \<Rightarrow> SelectStmt \<Rightarrow> ExprNode list \<Rightarrow> ExprNode list
      \<Rightarrow> PointGetPlan list \<Rightarrow> nat list
      \<Rightarrow> panic + ((PointGetPlan list \<times> nat list) option \<times> sessionctx)"
where
  "TryFastPlan E ctx (SelectStmtNode x) =
     (case tryWhereIn2BatchPointGet E ctx x of
        Inl pnc \<Rightarrow> Inl pnc
      | Inr (Some plan, ctx1) \<Rightarrow> Inr (Some plan, ctx1)
      | Inr (None, ctx1) \<Rightarrow>
          (case tryPointGetPlan E ctx1 x of
             (None, ctx2) \<Rightarrow> Inr (None, ctx2)
           | (Some fp, ctx2) \<Rightarrow>
               (case checkFastPlanPrivilege ctx2 fp [SelectPriv] of
                  (Some err, ctx3) \<Rightarrow> Inr (None, ctx3)
                | (None, ctx3) \<Rightarrow>
                    if IsTableDual fp then Inr (Some (PhysicalTableDual (Some (schema fp))), ctx3)
                    else if sel_LockTp x = SelectLockForUpdate
                            \<and> (\<not> IsAutocommit ctx3 \<or> InTxn ctx3)
                    then Inr (Some (PointGet (fp\<lparr>Lock := True, IsForUpdate := True\<rparr>)), ctx3)
                    else Inr (Some (PointGet fp), ctx3))))"
| "TryFastPlan E ctx (UpdateStmtNode x) = tryUpdatePointPlan E ctx x"
| "TryFastPlan E ctx (DeleteStmtNode x) = tryDeletePointPlan E ctx x"
| "TryFastPlan E ctx (OtherNode n) = Inr (None, ctx)"
| "tryWhereIn2BatchPointGet E ctx selStmt =
     (if sel_OrderBy selStmt \<noteq> None \<or> sel_GroupBy selStmt \<noteq> None \<or> sel_Limit selStmt \<noteq> None
         \<or> sel_Having selStmt \<noteq> None \<or> length (sel_WindowSpecs selStmt) > 0
         \<or> sel_LockTp selStmt \<noteq> SelectLockNone
      then Inr (None, ctx)
      else (case sel_Where selStmt of
              Some (PatternInExpr inExpr inList inNot) \<Rightarrow>
                if inNot \<or> length inList < 1 then Inr (None, ctx)
                else (case inExpr of
                        ColumnNameExpr cn \<Rightarrow>
                          (case tryWhereIn2BatchPointGet_columnLoop E ctx (reusedSelectStmt selStmt)
                                  inExpr inList [] [] of
                             Inl pnc \<Rightarrow> Inl pnc
                           | Inr (None, ctx1) \<Rightarrow> Inr (None, ctx1)
                           | Inr (Some (children, chReqProps), ctx1) \<Rightarrow>
                               (case children of
                                  [] \<Rightarrow> Inl PanicIndexOutOfRange
                                | child # rest \<Rightarrow>
                                    Inr (Some (PhysicalUnionAll True (schema child) children
                                                 chReqProps), ctx1)))
                      | RowExpr leftValues \<Rightarrow>
                          if length leftValues < 1 then Inr (None, ctx)
                          else (case tryWhereIn2BatchPointGet_rowLoop E ctx (reusedSelectStmt selStmt)
                                       leftValues inList [] [] of
                                  Inl pnc \<Rightarrow> Inl pnc
                                | Inr (None, ctx1) \<Rightarrow> Inr (None, ctx1)
                                | Inr (Some (children, chReqProps), ctx1) \<Rightarrow>
                                    (case children of
                                       [] \<Rightarrow> Inl PanicIndexOutOfRange
                                     | child # rest \<Rightarrow>
                                         Inr (Some (PhysicalUnionAll True (schema child) children
                                                      chReqProps), ctx1)))
                      | _ \<Rightarrow> Inr (None, ctx))
            | _ \<Rightarrow> Inr (None, ctx)))"
| "tryWhereIn2BatchPointGet_columnLoop E ctx reusedStmt inExpr [] children chReqProps =
     Inr (Some (children, chReqProps), ctx)"
| "tryWhereIn2BatchPointGet_columnLoop E ctx reusedStmt inExpr (row # rows) children chReqProps =
     (case TryFastPlan E ctx
             (SelectStmtNode (reusedStmt\<lparr>sel_Where := Some (BinaryOperationExpr EQ inExpr row)\<rparr>)) of
        Inl pnc \<Rightarrow> Inl pnc
      | Inr (None, ctx1) \<Rightarrow> Inr (None, ctx1)
      | Inr (Some fp, ctx1) \<Rightarrow>
          (case fp of
             PointGet p \<Rightarrow>
               tryWhereIn2BatchPointGet_columnLoop E ctx1 reusedStmt inExpr rows
                 (children @ [p]) (chReqProps @ [1])
           | _ \<Rightarrow> Inl PanicTypeAssertion))"
| "tryWhereIn2BatchPointGet_rowLoop E ctx reusedStmt leftValues [] children chReqProps =
     Inr (Some (children, chReqProps), ctx)"
| "tryWhereIn2BatchPointGet_rowLoop E ctx reusedStmt leftValues (row # rows) children chReqProps =
     (case row of
        RowExpr rightValues \<Rightarrow>
          if length rightValues \<noteq> length leftValues then Inr (None, ctx)
          else (case TryFastPlan E ctx
                       (SelectStmtNode (reusedStmt\<lparr>sel_Where := Some (rowWhere leftValues rightValues)\<rparr>)) of
                  Inl pnc \<Rightarrow> Inl pnc
                | Inr (None, ctx1) \<Rightarrow> Inr (None, ctx1)
                | Inr (Some fp, ctx1) \<Rightarrow>
                    (case fp of
                       PointGet p \<Rightarrow>
                         tryWhereIn2BatchPointGet_rowLoop E ctx1 reusedStmt leftValues rows
                           (children @ [p]) (chReqProps @ [1])
                     | _ \<Rightarrow> Inl PanicTypeAssertion))
      | _ \<Rightarrow> Inr (None, ctx))"
  by pat_completeness auto
termination
proof -
  have binop: "\<exists>op l r. foldl (\<lambda>w (l, r). BinaryOperationExpr LogicAnd w (BinaryOperationExpr EQ l r)) w zs
                 = BinaryOperationExpr op l r"
    if "\<exists>op l r. w = BinaryOperationExpr op l r" for w zs
    using that by (induction zs arbitrary: w) auto
  have row: "isPatternIn (Some (rowWhere ls rs)) = 0" for ls rs
    using binop [of "BinaryOperationExpr EQ (hd ls) (hd rs)" "zip (tl ls) (tl rs)"]
    by (auto simp: rowWhere_def isPatternIn_def)
  show ?thesis
    by (relation "inv_image (less_than <*lex*> less_than)
          (\<lambda>x. case x of
             Inl (Inl (E, ctx, node)) \<Rightarrow>
               (case node of
                  SelectStmtNode s \<Rightarrow> (2 * isPatternIn (sel_Where s) + 1, 0)
                | _ \<Rightarrow> (0, 0))
           | Inl (Inr (E, ctx, s)) \<Rightarrow> (2 * isPatternIn (sel_Where s), 0)
           | Inr (Inl (E, ctx, s, e, rows, ch, pr)) \<Rightarrow> (1, Suc (length rows))
           | Inr (Inr (E, ctx, s, ls, rows, ch, pr)) \<Rightarrow> (1, Suc (length rows)))")
       (auto simp: row, auto simp: isPatternIn_def)
qed

declare TryFastPlan.simps(1) [simp del]
declare tryWhereIn2BatchPointGet.simps [simp del]

section \<open>Sample collaborators, tables and statements\<close>

text \<open>
  Concrete inputs for the evaluations below. The sample collaborators behave as the
  real ones do on the inputs used: \<open>ex_NewCIStr\<close> is \<^verbatim>\<open>NewCIStr\<close> on lower-case
  names; \<open>ex_ConvertTo\<close> converts to a signed 64-bit integer (a signed value is exact,
  an unsigned value above the signed maximum overflows, a string is truncated, any
  other kind is the "cannot convert" error); \<open>ex_CompareDatum\<close> compares an integer
  datum with the original value. The tables are \<^verbatim>\<open>t1\<close> and \<^verbatim>\<open>index_prune\<close> of the
  explain test script.
\<close>

definition ex_NewCIStr :: "string \<Rightarrow> CIStr" where
  "ex_NewCIStr s = \<lparr>ci_O = s, ci_L = s\<rparr>"

definition NewIntDatum :: "64 word \<Rightarrow> Datum" where
  "NewIntDatum w = \<lparr>datum_k = KindInt64, datum_i = w, datum_b = []\<rparr>"

definition NewUintDatum :: "64 word \<Rightarrow> Datum" where
  "NewUintDatum w = \<lparr>datum_k = KindUint64, datum_i = w, datum_b = []\<rparr>"

definition NewStringDatum :: "string \<Rightarrow> Datum" where
  "NewStringDatum s = \<lparr>datum_k = KindString, datum_i = 0, datum_b = s\<rparr>"

definition ex_ConvertTo :: "Datum \<Rightarrow> FieldType \<Rightarrow> Datum \<times> error option" where
  "ex_ConvertTo d ft =
     (case datum_k d of
        KindInt64 \<Rightarrow> (d, None)
      | KindUint64 \<Rightarrow>
          if datum_i d \<le> 0x7FFFFFFFFFFFFFFF then (NewIntDatum (datum_i d), None)
          else (NewIntDatum 0x7FFFFFFFFFFFFFFF, Some ErrOverflow)
      | KindString \<Rightarrow> (NewIntDatum 0, Some ErrTruncatedWrongVal)
      | _ \<Rightarrow> (zeroDatum, Some (ErrOther 0)))"

definition ex_CompareDatum :: "Datum \<Rightarrow> Datum \<Rightarrow> error + int" where
  "ex_CompareDatum a b =
     (if datum_k b = KindInt64 \<or> datum_k b = KindUint64
      then Inr (if datum_i a = datum_i b then 0 else 1)
      else if datum_k b = KindString then Inr (if datum_b b = ''0'' \<and> datum_i a = 0 then 0 else 1)
      else Inl (ErrOther 1))"

definition ex_extractLimitCountOffset :: "Limit \<Rightarrow> error + nat \<times> nat" where
  "ex_extractLimitCountOffset lim =
     (case (lim_Count lim, lim_Offset lim) of
        (Some (ValueExpr c), None) \<Rightarrow> Inr (unat (datum_i c), 0)
      | (Some (ValueExpr c), Some (ValueExpr o')) \<Rightarrow> Inr (unat (datum_i c), unat (datum_i o'))
      | _ \<Rightarrow> Inl (ErrOther 2))"

definition ex_ExtraHandleName :: CIStr where
  "ex_ExtraHandleName = ex_NewCIStr ''_tidb_rowid''"

definition ex_collaborators :: "ExprNode collaborators" where
  "ex_collaborators =
     \<lparr>ConvertTo = ex_ConvertTo, CompareDatum = ex_CompareDatum,
      extractLimitCountOffset = ex_extractLimitCountOffset, NewCIStr = ex_NewCIStr,
      FindColumn = (\<lambda>sch cn. Inr (find (\<lambda>c. ci_L (ec_ColName c) = ci_L (cn_Name cn)) sch)),
      RewriteSimpleExprWithSchema = (\<lambda>e sch. Inr e),
      BuildCastFunction = (\<lambda>e ft. e),
      ResolveIndices = (\<lambda>e sch. Inr e),
      ExtraHandleName = ex_ExtraHandleName,
      NewExtraHandleColInfo =
        \<lparr>col_ID = - 1, col_Name = ex_ExtraHandleName, col_Offset = 0,
         col_FieldType = \<lparr>Tp = 8, Flag = 2\<rparr>, col_State = StatePublic,
         col_GeneratedExprString = []\<rparr>\<rparr>"

definition ex_ctx :: sessionctx where
  "ex_ctx =
     \<lparr>CurrentDB = ''test'', ActiveRoles = [], IsAutocommit = True, InTxn = False,
      IsPessimistic = False, StmtCtx_Tables = [],
      PrivilegeManager = Some (\<lambda>roles db tbl col priv. True), Verifications = []\<rparr>"

definition ex_column :: "int \<Rightarrow> string \<Rightarrow> 64 word \<Rightarrow> ColumnInfo" where
  "ex_column n name flag =
     \<lparr>col_ID = n, col_Name = ex_NewCIStr name, col_Offset = n - 1,
      col_FieldType = \<lparr>Tp = 8, Flag = flag\<rparr>, col_State = StatePublic,
      col_GeneratedExprString = []\<rparr>"

definition ex_index :: "int \<Rightarrow> string \<Rightarrow> (string \<times> int) list \<Rightarrow> bool \<Rightarrow> IndexInfo" where
  "ex_index n name cols uniq =
     \<lparr>idx_ID = n, idx_Name = ex_NewCIStr name,
      idx_Columns = map (\<lambda>(c, off). \<lparr>ic_Name = ex_NewCIStr c, ic_Offset = off, ic_Length = - 1\<rparr>) cols,
      idx_Unique = uniq, idx_State = StatePublic\<rparr>"

definition ex_t1 :: TableInfo where
  "ex_t1 =
     \<lparr>tbl_ID = 41, tbl_Name = ex_NewCIStr ''t1'',
      tbl_Columns = [ex_column 1 ''c1'' 3, ex_column 2 ''c2'' 0, ex_column 3 ''c3'' 0],
      tbl_Indices = [ex_index 1 ''c2'' [(''c2'', 1)] False],
      tbl_PKIsHandle = True, tbl_Partition = None\<rparr>"

definition ex_index_prune :: TableInfo where
  "ex_index_prune =
     \<lparr>tbl_ID = 47, tbl_Name = ex_NewCIStr ''index_prune'',
      tbl_Columns = [ex_column 1 ''a'' 1, ex_column 2 ''b'' 1, ex_column 3 ''c'' 1],
      tbl_Indices = [ex_index 1 ''PRIMARY'' [(''a'', 0), (''b'', 1)] True,
                     ex_index 2 ''idx_b_c_a'' [(''b'', 1), (''c'', 2), (''a'', 0)] False],
      tbl_PKIsHandle = False, tbl_Partition = None\<rparr>"

definition ex_from :: "TableInfo \<Rightarrow> TableRefsClause option" where
  "ex_from tbl =
     Some \<lparr>TableRefs = Some \<lparr>join_Left = TableSource
              (TableNameNode \<lparr>tn_Schema = zeroCIStr, tn_Name = tbl_Name tbl,
                              tn_TableInfo = Some tbl\<rparr>) zeroCIStr,
            join_Right = None\<rparr>\<rparr>"

definition ex_star :: SelectField where
  "ex_star = \<lparr>sf_WildCard = Some \<lparr>wc_Table = zeroCIStr, wc_Schema = zeroCIStr\<rparr>,
              sf_Expr = None, sf_AsName = zeroCIStr\<rparr>"

definition ex_select :: "TableInfo \<Rightarrow> ExprNode \<Rightarrow> SelectLockType \<Rightarrow> SelectStmt" where
  "ex_select tbl w lk =
     \<lparr>sel_SelectStmtOpts = None, sel_Distinct = False, sel_From = ex_from tbl,
      sel_Where = Some w, sel_Fields = [ex_star], sel_GroupBy = None, sel_Having = None,
      sel_WindowSpecs = [], sel_OrderBy = None, sel_Limit = None, sel_LockTp = lk\<rparr>"

definition ex_colref :: "string \<Rightarrow> ExprNode" where
  "ex_colref name =
     ColumnNameExpr \<lparr>cn_Schema = zeroCIStr, cn_Table = zeroCIStr, cn_Name = ex_NewCIStr name\<rparr>"

definition ex_eq :: "string \<Rightarrow> Datum \<Rightarrow> ExprNode" where
  "ex_eq name d = BinaryOperationExpr EQ (ex_colref name) (ValueExpr d)"

definition ex_t1_partitioned :: TableInfo where
  "ex_t1_partitioned = ex_t1\<lparr>tbl_Partition := Some (PartitionInfo 1)\<rparr>"

definition ex_ctx_inTxn :: sessionctx where
  "ex_ctx_inTxn = ex_ctx\<lparr>InTxn := True\<rparr>"

text \<open>\<^verbatim>\<open>SELECT * FROM t1 WHERE c1 = 1\<close>, plain and \<^verbatim>\<open>FOR UPDATE\<close>.\<close>

definition ex_select_pk :: "SelectLockType \<Rightarrow> SelectStmt" where
  "ex_select_pk lk = ex_select ex_t1 (ex_eq ''c1'' (NewIntDatum 1)) lk"

text \<open>\<^verbatim>\<open>SELECT * FROM index_prune WHERE b = 26467085526790 AND a = 1010010404050976781\<close>.\<close>

definition ex_select_index_prune :: SelectStmt where
  "ex_select_index_prune =
     ex_select ex_index_prune
       (BinaryOperationExpr LogicAnd (ex_eq ''b'' (NewIntDatum 26467085526790))
          (ex_eq ''a'' (NewIntDatum 1010010404050976781))) SelectLockNone"

text \<open>\<^verbatim>\<open>SELECT * FROM t1 WHERE c1 = <d>\<close> and \<^verbatim>\<open>SELECT * FROM t1 WHERE c1 IN (<ds>)\<close>.\<close>

definition ex_select_pk_value :: "Datum \<Rightarrow> SelectStmt" where
  "ex_select_pk_value d = ex_select ex_t1 (ex_eq ''c1'' d) SelectLockNone"

definition ex_select_pk_in :: "Datum list \<Rightarrow> SelectStmt" where
  "ex_select_pk_in ds =
     ex_select ex_t1 (PatternInExpr (ex_colref ''c1'') (map ValueExpr ds) False) SelectLockNone"

text \<open>A datum of a kind that the integer conversion does not know, and the pair it gives.\<close>

definition ex_unconvertible :: Datum where
  "ex_unconvertible = \<lparr>datum_k = KindOther 0, datum_i = 0, datum_b = []\<rparr>"

definition ex_pair :: "Datum \<Rightarrow> nameValuePair" where
  "ex_pair d = \<lparr>colName = ''c1'', value = d, param = None\<rparr>"

definition ex_t1_tableName :: TableName where
  "ex_t1_tableName = \<lparr>tn_Schema = zeroCIStr, tn_Name = tbl_Name ex_t1, tn_TableInfo = Some ex_t1\<rparr>"

text \<open>\<^verbatim>\<open>UPDATE t1 SET c2 = 2 WHERE c1 = 1\<close> and \<^verbatim>\<open>DELETE FROM index_prune WHERE b = 2 AND a = 1\<close>.\<close>

definition ex_update_pk :: UpdateStmt where
  "ex_update_pk =
     \<lparr>upd_TableRefs = ex_from ex_t1,
      upd_List = [\<lparr>asg_Column = \<lparr>cn_Schema = zeroCIStr, cn_Table = zeroCIStr,
                                 cn_Name = ex_NewCIStr ''c2''\<rparr>,
                   asg_Expr = ValueExpr (NewIntDatum 2)\<rparr>],
      upd_Where = Some (ex_eq ''c1'' (NewIntDatum 1)), upd_Order = None, upd_Limit = None\<rparr>"

definition ex_delete_index :: DeleteStmt where
  "ex_delete_index =
     \<lparr>del_TableRefs = ex_from ex_index_prune,
      del_Where = Some (BinaryOperationExpr LogicAnd (ex_eq ''b'' (NewIntDatum 2))
                          (ex_eq ''a'' (NewIntDatum 1))),
      del_Order = None, del_Limit = None, del_IsMultiTable = False\<rparr>"

text \<open>\<^verbatim>\<open>SELECT * FROM index_prune WHERE (a, b) IN (<rows>)\<close>.\<close>

definition ex_select_rows_in :: "(Datum \<times> Datum) list \<Rightarrow> SelectStmt" where
  "ex_select_rows_in rows =
     ex_select ex_index_prune
       (PatternInExpr (RowExpr [ex_colref ''a'', ex_colref ''b''])
          (map (\<lambda>(x, y). RowExpr [ValueExpr x, ValueExpr y]) rows) False) SelectLockNone"

definition ex_columnName :: "string \<Rightarrow> ColumnName" where
  "ex_columnName name = \<lparr>cn_Schema = zeroCIStr, cn_Table = zeroCIStr, cn_Name = ex_NewCIStr name\<rparr>"

section \<open>Notions used in the proofs\<close>

text \<open>
  What a run of the planner may do to the session: every session variable keeps its value,
  the verification log grows by \<open>vs\<close>, and the table list of the statement context is
  either untouched or the single entry written by \<^verbatim>\<open>newPointGetPlan\<close>. The other
  definitions name the calls \<^verbatim>\<open>checkFastPlanPrivilege\<close> makes, their approval, and the
  table and schema a statement resolves to.
\<close>

definition sessionStep :: "sessionctx \<Rightarrow> verification list \<Rightarrow> sessionctx \<Rightarrow> bool" where
  "sessionStep ctx vs ctx' \<longleftrightarrow>
     CurrentDB ctx' = CurrentDB ctx \<and> ActiveRoles ctx' = ActiveRoles ctx
     \<and> IsAutocommit ctx' = IsAutocommit ctx \<and> InTxn ctx' = InTxn ctx
     \<and> IsPessimistic ctx' = IsPessimistic ctx \<and> PrivilegeManager ctx' = PrivilegeManager ctx
     \<and> Verifications ctx' = Verifications ctx @ vs
     \<and> (StmtCtx_Tables ctx' = StmtCtx_Tables ctx
         \<or> (\<exists>t. StmtCtx_Tables ctx' = [\<lparr>te_DB = CurrentDB ctx, te_Table = t\<rparr>]))"

definition privCalls :: "sessionctx \<Rightarrow> string \<Rightarrow> PrivilegeType list \<Rightarrow> verification list" where
  "privCalls ctx tname kinds =
     (case PrivilegeManager ctx of
        None \<Rightarrow> []
      | Some pm \<Rightarrow> map (\<lambda>k. (ActiveRoles ctx, CurrentDB ctx, tname, [], k)) kinds)"

definition privApproved :: "sessionctx \<Rightarrow> string \<Rightarrow> PrivilegeType list \<Rightarrow> bool" where
  "privApproved ctx tname kinds =
     (case PrivilegeManager ctx of
        None \<Rightarrow> True
      | Some pm \<Rightarrow> list_all (\<lambda>k. pm (ActiveRoles ctx) (CurrentDB ctx) tname [] k) kinds)"

definition stmtTable :: "TableRefsClause option \<Rightarrow> TableInfo option" where
  "stmtTable refs =
     (case getSingleTableNameAndAlias refs of
        (Some tblName, tblAlias) \<Rightarrow> tn_TableInfo tblName
      | (None, tblAlias) \<Rightarrow> None)"

definition stmtSchema ::
  "'e collaborators \<Rightarrow> sessionctx \<Rightarrow> TableRefsClause option \<Rightarrow> SelectField list \<Rightarrow> Column list option" where
  "stmtSchema E ctx refs flds =
     (case getSingleTableNameAndAlias refs of
        (Some tblName, tblAlias) \<Rightarrow>
          (case tn_TableInfo tblName of
             Some tbl \<Rightarrow> buildSchemaFromFields E ctx (tn_Schema tblName) tbl tblAlias flds
           | None \<Rightarrow> None)
      | (None, tblAlias) \<Rightarrow> None)"

section \<open>Properties of the helpers\<close>

lemma findInPairs_Some: "findInPairs name pairs = Some i \<Longrightarrow> i < length pairs \<and> colName (pairs ! i) = name"
  by (induction pairs arbitrary: i) (auto split: if_splits)

lemma findPKHandle_fieldType:
  "datum_k (value (fst (findPKHandle tbl pairs))) \<noteq> KindNull \<Longrightarrow> snd (findPKHandle tbl pairs) \<noteq> None"
  by (auto simp: findPKHandle_def zeroPair_def zeroDatum_def split: if_splits option.splits)

lemma newPointGetPlan_eq:
  "newPointGetPlan ctx sch dbName tbl = (p, ctx1) \<Longrightarrow>
     ctx1 = ctx\<lparr>StmtCtx_Tables := [\<lparr>te_DB = CurrentDB ctx, te_Table = ci_L (tbl_Name tbl)\<rparr>]\<rparr>
     \<and> schema p = sch \<and> TblInfo p = tbl \<and> DBName p = dbName \<and> IndexInfo p = None
     \<and> \<not> IsTableDual p \<and> \<not> Lock p \<and> \<not> IsForUpdate p"
  by (auto simp: newPointGetPlan_def)

lemma tryPointGetPlan_indices_Some:
  "tryPointGetPlan_indices E ctx tblName tbl tblAlias dbName flds pairs idxs = (Some p, ctx') \<Longrightarrow>
     ctx' = ctx\<lparr>StmtCtx_Tables := [\<lparr>te_DB = CurrentDB ctx, te_Table = ci_L (tbl_Name tbl)\<rparr>]\<rparr>
     \<and> buildSchemaFromFields E ctx (tn_Schema tblName) tbl tblAlias flds = Some (schema p)
     \<and> TblInfo p = tbl \<and> DBName p = dbName \<and> \<not> IsTableDual p \<and> \<not> Lock p \<and> \<not> IsForUpdate p
     \<and> (\<exists>idx \<in> set idxs. IndexInfo p = Some idx \<and> idx_Unique idx \<and> idx_State idx = StatePublic
           \<and> getIndexValues idx pairs = Some (IndexValues p, IndexValueParams p))"
  by (induction idxs) (auto simp: newPointGetPlan_def split: if_splits option.splits prod.splits)

lemma tryPointGetPlan_indices_None:
  "tryPointGetPlan_indices E ctx tblName tbl tblAlias dbName flds pairs idxs = (None, ctx') \<Longrightarrow> ctx' = ctx"
  by (induction idxs) (auto simp: newPointGetPlan_def split: if_splits option.splits prod.splits)

lemma tryPointGetPlan_Some_table:
  "tryPointGetPlan E ctx selStmt = (Some p, ctx') \<Longrightarrow>
     \<exists>tblName tblAlias. getSingleTableNameAndAlias (sel_From selStmt) = (Some tblName, tblAlias)
        \<and> tn_TableInfo tblName = Some (TblInfo p)"
  apply (simp add: tryPointGetPlan_def Let_def split: if_splits option.splits prod.splits sum.splits)
  apply (auto simp: newPointGetPlan_def dest!: tryPointGetPlan_indices_Some)
  done

lemma tryPointGetPlan_Some_props:
  "tryPointGetPlan E ctx selStmt = (Some p, ctx') \<Longrightarrow>
   getSingleTableNameAndAlias (sel_From selStmt) = (Some tblName, tblAlias) \<Longrightarrow>
   tn_TableInfo tblName = Some tbl \<Longrightarrow>
     sel_Having selStmt = None
     \<and> GetPartitionInfo tbl = None
     \<and> \<not> list_ex (\<lambda>col. IsGenerated col \<or> col_State col \<noteq> StatePublic) (tbl_Columns tbl)
     \<and> buildSchemaFromFields E ctx (tn_Schema tblName) tbl tblAlias (sel_Fields selStmt) = Some (schema p)
     \<and> ctx' = ctx\<lparr>StmtCtx_Tables := [\<lparr>te_DB = CurrentDB ctx, te_Table = ci_L (tbl_Name tbl)\<rparr>]\<rparr>
     \<and> TblInfo p = tbl \<and> \<not> Lock p \<and> \<not> IsForUpdate p"
  apply (simp add: tryPointGetPlan_def Let_def split: if_splits option.splits prod.splits sum.splits)
  apply (auto simp: newPointGetPlan_def dest!: tryPointGetPlan_indices_Some)
  done

lemma tryPointGetPlan_Some_where:
  "tryPointGetPlan E ctx selStmt = (Some p, ctx') \<Longrightarrow>
     \<exists>op l r. sel_Where selStmt = Some (BinaryOperationExpr op l r)"
  apply (simp add: tryPointGetPlan_def Let_def split: if_splits option.splits prod.splits sum.splits)
  apply (auto elim: getNameValuePairs.elims)
  done

lemma tryPointGetPlan_Some_index:
  "tryPointGetPlan E ctx selStmt = (Some p, ctx') \<Longrightarrow> IndexInfo p = Some idx \<Longrightarrow>
     idx \<in> set (tbl_Indices (TblInfo p)) \<and> idx_Unique idx \<and> idx_State idx = StatePublic
     \<and> \<not> HasPrefixIndex idx \<and> \<not> IsTableDual p"
  apply (simp add: tryPointGetPlan_def Let_def split: if_splits option.splits prod.splits sum.splits)
  apply (auto simp: newPointGetPlan_def getIndexValues_def dest!: tryPointGetPlan_indices_Some split: if_splits)
  done

lemma tryPointGetPlan_None_ctx:
  "tryPointGetPlan E ctx selStmt = (None, ctx') \<Longrightarrow>
     ctx' = ctx \<or> (\<exists>t. ctx' = ctx\<lparr>StmtCtx_Tables := [\<lparr>te_DB = CurrentDB ctx, te_Table = t\<rparr>]\<rparr>)"
  apply (simp add: tryPointGetPlan_def Let_def split: if_splits option.splits prod.splits sum.splits)
  apply (auto simp: newPointGetPlan_def dest!: tryPointGetPlan_indices_None)
  done

lemma tryPointGetPlan_ctx:
  assumes "tryPointGetPlan E ctx selStmt = (r, ctx')"
  shows "ctx' = ctx \<or> (\<exists>t. ctx' = ctx\<lparr>StmtCtx_Tables := [\<lparr>te_DB = CurrentDB ctx, te_Table = t\<rparr>]\<rparr>)"
proof (cases r)
  case None
  with assms show ?thesis by (simp add: tryPointGetPlan_None_ctx)
next
  case (Some p)
  with assms have run: "tryPointGetPlan E ctx selStmt = (Some p, ctx')" by simp
  from tryPointGetPlan_Some_table [OF run] obtain tblName tblAlias where
    "getSingleTableNameAndAlias (sel_From selStmt) = (Some tblName, tblAlias)"
    "tn_TableInfo tblName = Some (TblInfo p)" by blast
  from tryPointGetPlan_Some_props [OF run this] show ?thesis by blast
qed

lemma checkFastPlanPrivilege_loop_frame:
  "checkFastPlanPrivilege_loop pm ctx fp kinds = (err, ctx') \<Longrightarrow>
     \<exists>vs. ctx' = ctx\<lparr>Verifications := Verifications ctx @ vs\<rparr>"
proof (induction kinds arbitrary: ctx)
  case Nil
  then show ?case by (auto intro: exI [of _ "[]"])
next
  case (Cons k kinds)
  show ?case
  proof (cases "pm (ActiveRoles ctx) (CurrentDB ctx) (ci_L (tbl_Name (TblInfo fp))) [] k")
    case False
    with Cons.prems show ?thesis by (auto simp: Let_def)
  next
    case True
    with Cons.prems Cons.IH [of "ctx\<lparr>Verifications := Verifications ctx @
        [(ActiveRoles ctx, CurrentDB ctx, ci_L (tbl_Name (TblInfo fp)), [], k)]\<rparr>"]
    show ?thesis by (auto simp: Let_def)
  qed
qed

lemma checkFastPlanPrivilege_loop_ok:
  "checkFastPlanPrivilege_loop pm ctx fp kinds = (None, ctx') \<Longrightarrow>
     ctx' = ctx\<lparr>Verifications := Verifications ctx @
              map (\<lambda>k. (ActiveRoles ctx, CurrentDB ctx, ci_L (tbl_Name (TblInfo fp)), [], k)) kinds\<rparr>
     \<and> (\<forall>k \<in> set kinds. pm (ActiveRoles ctx) (CurrentDB ctx) (ci_L (tbl_Name (TblInfo fp))) [] k)"
proof (induction kinds arbitrary: ctx)
  case Nil
  then show ?case by simp
next
  case (Cons k kinds)
  from Cons.prems have ok: "pm (ActiveRoles ctx) (CurrentDB ctx) (ci_L (tbl_Name (TblInfo fp))) [] k"
    by (auto simp: Let_def split: if_splits)
  with Cons.prems Cons.IH [of "ctx\<lparr>Verifications := Verifications ctx @
        [(ActiveRoles ctx, CurrentDB ctx, ci_L (tbl_Name (TblInfo fp)), [], k)]\<rparr>"]
  show ?case by (auto simp: Let_def)
qed

lemma checkFastPlanPrivilege_frame:
  "checkFastPlanPrivilege ctx fp kinds = (err, ctx') \<Longrightarrow>
     \<exists>vs. ctx' = ctx\<lparr>Verifications := Verifications ctx @ vs\<rparr>"
  by (auto simp: checkFastPlanPrivilege_def split: option.splits
           dest: checkFastPlanPrivilege_loop_frame intro: exI [of _ "[]"])

lemma tryWhereIn2BatchPointGet_not_in:
  "sel_LockTp x \<noteq> SelectLockNone \<or> (\<forall>e l n. sel_Where x \<noteq> Some (PatternInExpr e l n)) \<Longrightarrow>
     tryWhereIn2BatchPointGet E ctx x = Inr (None, ctx)"
  by (auto simp: tryWhereIn2BatchPointGet.simps split: option.splits ExprNode.splits)

lemma getNameValuePairs_values:
  "getNameValuePairs acc al e = Some ps \<Longrightarrow>
     \<exists>new. ps = acc @ new \<and> new \<noteq> [] \<and> (\<forall>q \<in> set new. datum_k (value q) \<noteq> KindNull)"
proof (induction acc al e arbitrary: ps rule: getNameValuePairs.induct)
  case (1 nvPairs tblName op l r)
  show ?case
  proof (cases "op = LogicAnd")
    case True
    with "1.prems" obtain ps1 where l: "getNameValuePairs nvPairs tblName l = Some ps1"
      and r: "getNameValuePairs ps1 tblName r = Some ps"
      by (auto split: option.splits)
    from "1.IH"(1) [OF True l] obtain n1 where n1: "ps1 = nvPairs @ n1" "n1 \<noteq> []"
      "\<forall>q \<in> set n1. datum_k (value q) \<noteq> KindNull" by blast
    from "1.IH"(2) [OF True l r] obtain n2 where n2: "ps = ps1 @ n2" "n2 \<noteq> []"
      "\<forall>q \<in> set n2. datum_k (value q) \<noteq> KindNull" by blast
    from n1 n2 show ?thesis by (intro exI [of _ "n1 @ n2"]) auto
  next
    case False
    with "1.prems" show ?thesis
      by (auto simp: IsNull_def split: if_splits option.splits)
  qed
qed simp_all

lemma getNameValuePairs_single_value:
  "getNameValuePairs [] al e = Some [pair] \<Longrightarrow> datum_k (value pair) \<noteq> KindNull"
  by (drule getNameValuePairs_values) auto

lemma map_eq_replicate:
  "length xs = n \<Longrightarrow> \<forall>x \<in> set xs. f x = a \<Longrightarrow> map f xs = replicate n a"
  by (induction xs arbitrary: n) auto

lemma Inr_collapse: "\<not> isl r \<Longrightarrow> fst (projr r) = a \<Longrightarrow> r = Inr (a, snd (projr r))"
  by (cases r) auto

lemma pair_collapse: "fst r = a \<Longrightarrow> r = (a, snd r)"
  by (cases r) auto

lemma sessionStep_refl [simp]: "sessionStep ctx [] ctx"
  by (simp add: sessionStep_def)

lemma sessionStep_trans:
  "sessionStep ctx vs ctx1 \<Longrightarrow> sessionStep ctx1 vs1 ctx2 \<Longrightarrow> sessionStep ctx (vs @ vs1) ctx2"
  unfolding sessionStep_def by (elim conjE disjE exE; simp)

lemma sessionStep_fields:
  "sessionStep ctx vs ctx' \<Longrightarrow>
     CurrentDB ctx' = CurrentDB ctx \<and> ActiveRoles ctx' = ActiveRoles ctx
     \<and> IsAutocommit ctx' = IsAutocommit ctx \<and> InTxn ctx' = InTxn ctx
     \<and> IsPessimistic ctx' = IsPessimistic ctx \<and> PrivilegeManager ctx' = PrivilegeManager ctx
     \<and> Verifications ctx' = Verifications ctx @ vs
     \<and> (StmtCtx_Tables ctx' = StmtCtx_Tables ctx
         \<or> (\<exists>t. StmtCtx_Tables ctx' = [\<lparr>te_DB = CurrentDB ctx, te_Table = t\<rparr>]))"
  unfolding sessionStep_def by simp

lemma sessionStep_priv:
  "sessionStep ctx vs ctx' \<Longrightarrow>
     privCalls ctx' t ks = privCalls ctx t ks \<and> privApproved ctx' t ks = privApproved ctx t ks"
  by (simp add: privCalls_def privApproved_def sessionStep_def cong: option.case_cong)

lemma buildSchemaFromFields_ctx:
  "CurrentDB ctx' = CurrentDB ctx \<Longrightarrow>
     buildSchemaFromFields E ctx' d tbl al flds = buildSchemaFromFields E ctx d tbl al flds"
  by (simp add: buildSchemaFromFields_def)

lemma stmtSchema_ctx:
  "sessionStep ctx vs ctx' \<Longrightarrow> stmtSchema E ctx' refs flds = stmtSchema E ctx refs flds"
  by (simp add: stmtSchema_def sessionStep_def buildSchemaFromFields_ctx [of ctx' ctx]
           split: prod.splits option.splits)

lemma tryPointGetPlan_step:
  "tryPointGetPlan E ctx selStmt = (r, ctx') \<Longrightarrow> sessionStep ctx [] ctx'"
  by (drule tryPointGetPlan_ctx) (elim disjE exE; simp add: sessionStep_def)

lemma tryPointGetPlan_Some_stmt:
  assumes "tryPointGetPlan E ctx selStmt = (Some p, ctx')"
  shows "stmtTable (sel_From selStmt) = Some (TblInfo p)
       \<and> stmtSchema E ctx (sel_From selStmt) (sel_Fields selStmt) = Some (schema p)
       \<and> \<not> Lock p \<and> \<not> IsForUpdate p"
proof -
  from tryPointGetPlan_Some_table [OF assms] obtain tblName tblAlias where
    t: "getSingleTableNameAndAlias (sel_From selStmt) = (Some tblName, tblAlias)"
      "tn_TableInfo tblName = Some (TblInfo p)" by blast
  from tryPointGetPlan_Some_props [OF assms t] t show ?thesis
    by (simp add: stmtTable_def stmtSchema_def)
qed

lemma tryPointGetPlan_in:
  "sel_Where x = Some (PatternInExpr e l n) \<Longrightarrow> tryPointGetPlan E ctx x = (None, ctx)"
  by (simp add: tryPointGetPlan_def Let_def split: option.splits prod.splits sum.splits)

lemma checkFastPlanPrivilege_step:
  assumes "checkFastPlanPrivilege ctx fp kinds = (err, ctx')"
  shows "\<exists>vs. sessionStep ctx vs ctx'
           \<and> (err = None \<longrightarrow> vs = privCalls ctx (ci_L (tbl_Name (TblInfo fp))) kinds
                 \<and> privApproved ctx (ci_L (tbl_Name (TblInfo fp))) kinds)"
proof (cases "PrivilegeManager ctx")
  case None
  with assms show ?thesis
    by (auto simp: checkFastPlanPrivilege_def privCalls_def privApproved_def)
next
  case (Some pm)
  with assms have loop: "checkFastPlanPrivilege_loop pm ctx fp kinds = (err, ctx')"
    by (simp add: checkFastPlanPrivilege_def)
  from checkFastPlanPrivilege_loop_frame [OF loop] obtain vs where
    vs: "ctx' = ctx\<lparr>Verifications := Verifications ctx @ vs\<rparr>" by blast
  then have step: "sessionStep ctx vs ctx'"
    by (simp add: sessionStep_def)
  show ?thesis
  proof (cases err)
    case None
    with loop have "checkFastPlanPrivilege_loop pm ctx fp kinds = (None, ctx')" by simp
    from checkFastPlanPrivilege_loop_ok [OF this]
    have ok: "ctx' = ctx\<lparr>Verifications := Verifications ctx @
                map (\<lambda>k. (ActiveRoles ctx, CurrentDB ctx, ci_L (tbl_Name (TblInfo fp)), [], k)) kinds\<rparr>"
      and ap: "\<forall>k \<in> set kinds. pm (ActiveRoles ctx) (CurrentDB ctx) (ci_L (tbl_Name (TblInfo fp))) [] k"
      by blast+
    have calls: "privCalls ctx (ci_L (tbl_Name (TblInfo fp))) kinds =
        map (\<lambda>k. (ActiveRoles ctx, CurrentDB ctx, ci_L (tbl_Name (TblInfo fp)), [], k)) kinds"
      using Some by (simp add: privCalls_def)
    have "sessionStep ctx (privCalls ctx (ci_L (tbl_Name (TblInfo fp))) kinds) ctx'"
      unfolding calls by (subst ok) (simp add: sessionStep_def)
    moreover have "privApproved ctx (ci_L (tbl_Name (TblInfo fp))) kinds"
      using Some ap by (simp add: privApproved_def list_all_iff)
    ultimately show ?thesis by blast
  next
    case (Some e)
    with step show ?thesis by auto
  qed
qed

lemma privCalls_Cons:
  "privCalls ctx t (k # ks) = privCalls ctx t [k] @ privCalls ctx t ks"
  by (simp add: privCalls_def split: option.splits)

lemma privCalls_Nil [simp]: "privCalls ctx t [] = []"
  by (simp add: privCalls_def split: option.splits)

lemma TryFastPlan_single:
  assumes "\<forall>e l n. sel_Where x \<noteq> Some (PatternInExpr e l n)"
  shows "TryFastPlan E ctx (SelectStmtNode x) =
     (case tryPointGetPlan E ctx x of
        (None, ctx2) \<Rightarrow> Inr (None, ctx2)
      | (Some fp, ctx2) \<Rightarrow>
          (case checkFastPlanPrivilege ctx2 fp [SelectPriv] of
             (Some err, ctx3) \<Rightarrow> Inr (None, ctx3)
           | (None, ctx3) \<Rightarrow>
               if IsTableDual fp then Inr (Some (PhysicalTableDual (Some (schema fp))), ctx3)
               else if sel_LockTp x = SelectLockForUpdate \<and> (\<not> IsAutocommit ctx3 \<or> InTxn ctx3)
               then Inr (Some (PointGet (fp\<lparr>Lock := True, IsForUpdate := True\<rparr>)), ctx3)
               else Inr (Some (PointGet fp), ctx3)))"
  using assms by (simp add: TryFastPlan.simps(1) tryWhereIn2BatchPointGet_not_in)

lemma TryFastPlan_single_result:
  assumes nin: "\<forall>e l n. sel_Where x \<noteq> Some (PatternInExpr e l n)"
  shows "\<exists>res ctx' vs. TryFastPlan E ctx (SelectStmtNode x) = Inr (res, ctx') \<and> sessionStep ctx vs ctx'
     \<and> (\<forall>plan. res = Some plan \<longrightarrow>
           (\<exists>tbl sch. stmtTable (sel_From x) = Some tbl
              \<and> stmtSchema E ctx (sel_From x) (sel_Fields x) = Some sch
              \<and> vs = privCalls ctx (ci_L (tbl_Name tbl)) [SelectPriv]
              \<and> privApproved ctx (ci_L (tbl_Name tbl)) [SelectPriv]
              \<and> (plan = PhysicalTableDual (Some sch)
                  \<or> (\<exists>p. plan = PointGet p \<and> schema p = sch \<and> TblInfo p = tbl))))"
proof -
  obtain r ctx2 where single: "tryPointGetPlan E ctx x = (r, ctx2)"
    by (cases "tryPointGetPlan E ctx x")
  have s2: "sessionStep ctx [] ctx2"
    using single by (rule tryPointGetPlan_step)
  show ?thesis
  proof (cases r)
    case None
    with single s2 show ?thesis
      by (auto simp: TryFastPlan_single [OF nin])
  next
    case (Some fp)
    obtain err ctx3 where priv: "checkFastPlanPrivilege ctx2 fp [SelectPriv] = (err, ctx3)"
      by (cases "checkFastPlanPrivilege ctx2 fp [SelectPriv]")
    from checkFastPlanPrivilege_step [OF priv] obtain vs where
      s3: "sessionStep ctx2 vs ctx3"
      and ok: "err = None \<longrightarrow> vs = privCalls ctx2 (ci_L (tbl_Name (TblInfo fp))) [SelectPriv]
                 \<and> privApproved ctx2 (ci_L (tbl_Name (TblInfo fp))) [SelectPriv]"
      by blast
    from sessionStep_trans [OF s2 s3] have st: "sessionStep ctx vs ctx3" by simp
    from single Some have "tryPointGetPlan E ctx x = (Some fp, ctx2)" by simp
    from tryPointGetPlan_Some_stmt [OF this]
    have facts: "stmtTable (sel_From x) = Some (TblInfo fp)"
      "stmtSchema E ctx (sel_From x) (sel_Fields x) = Some (schema fp)" by blast+
    show ?thesis
    proof (cases err)
      case (Some e)
      with single \<open>r = Some fp\<close> priv st show ?thesis
        by (auto simp: TryFastPlan_single [OF nin])
    next
      case None
      with ok sessionStep_priv [OF s2]
      have calls: "vs = privCalls ctx (ci_L (tbl_Name (TblInfo fp))) [SelectPriv]"
        and appr: "privApproved ctx (ci_L (tbl_Name (TblInfo fp))) [SelectPriv]"
        by simp_all
      have eq: "TryFastPlan E ctx (SelectStmtNode x) =
          (if IsTableDual fp then Inr (Some (PhysicalTableDual (Some (schema fp))), ctx3)
           else if sel_LockTp x = SelectLockForUpdate \<and> (\<not> IsAutocommit ctx3 \<or> InTxn ctx3)
           then Inr (Some (PointGet (fp\<lparr>Lock := True, IsForUpdate := True\<rparr>)), ctx3)
           else Inr (Some (PointGet fp), ctx3))"
        using single \<open>r = Some fp\<close> priv None by (simp add: TryFastPlan_single [OF nin])
      show ?thesis
        unfolding eq using st facts calls appr by (simp split del: if_split) auto
    qed
  qed
qed

lemma rowWhere_binop: "\<exists>op l r. rowWhere ls rs = BinaryOperationExpr op l r"
proof -
  have "\<exists>op l r. foldl (\<lambda>w (l, r). BinaryOperationExpr LogicAnd w (BinaryOperationExpr EQ l r)) w zs
          = BinaryOperationExpr op l r"
    if "\<exists>op l r. w = BinaryOperationExpr op l r" for w zs
    using that by (induction zs arbitrary: w) auto
  then show ?thesis unfolding rowWhere_def by blast
qed

lemma batch_step:
  assumes nin: "\<forall>e l n. w \<noteq> PatternInExpr e l n"
    and run: "(case TryFastPlan E ctx (SelectStmtNode (rs\<lparr>sel_Where := Some w\<rparr>)) of
                 Inl pnc \<Rightarrow> Inl pnc
               | Inr (None, ctx1) \<Rightarrow> Inr (None, ctx1)
               | Inr (Some fp, ctx1) \<Rightarrow>
                   (case fp of PointGet p \<Rightarrow> k ctx1 p | _ \<Rightarrow> Inl PanicTypeAssertion))
               = Inr (res, ctx')"
  shows "(res = None \<and> (\<exists>vs. sessionStep ctx vs ctx'))
       \<or> (\<exists>p ctx1 tbl. k ctx1 p = Inr (res, ctx')
             \<and> TryFastPlan E ctx (SelectStmtNode (rs\<lparr>sel_Where := Some w\<rparr>)) = Inr (Some (PointGet p), ctx1)
             \<and> stmtTable (sel_From rs) = Some tbl \<and> TblInfo p = tbl
             \<and> stmtSchema E ctx (sel_From rs) (sel_Fields rs) = Some (schema p)
             \<and> sessionStep ctx (privCalls ctx (ci_L (tbl_Name tbl)) [SelectPriv]) ctx1
             \<and> privApproved ctx (ci_L (tbl_Name tbl)) [SelectPriv])"
proof -
  let ?x = "rs\<lparr>sel_Where := Some w\<rparr>"
  have nin': "\<forall>e l n. sel_Where ?x \<noteq> Some (PatternInExpr e l n)"
    using nin by simp
  from TryFastPlan_single_result [OF nin', of E ctx] obtain res1 ctx1 vs1 where
    r1: "TryFastPlan E ctx (SelectStmtNode ?x) = Inr (res1, ctx1)"
    and s1: "sessionStep ctx vs1 ctx1"
    and f1: "\<forall>plan. res1 = Some plan \<longrightarrow>
           (\<exists>tbl sch. stmtTable (sel_From ?x) = Some tbl
              \<and> stmtSchema E ctx (sel_From ?x) (sel_Fields ?x) = Some sch
              \<and> vs1 = privCalls ctx (ci_L (tbl_Name tbl)) [SelectPriv]
              \<and> privApproved ctx (ci_L (tbl_Name tbl)) [SelectPriv]
              \<and> (plan = PhysicalTableDual (Some sch)
                  \<or> (\<exists>p. plan = PointGet p \<and> schema p = sch \<and> TblInfo p = tbl)))"
    by blast
  show ?thesis
  proof (cases res1)
    case None
    with run r1 s1 show ?thesis by auto
  next
    case (Some plan)
    with f1 obtain tbl sch where
      t: "stmtTable (sel_From rs) = Some tbl" "stmtSchema E ctx (sel_From rs) (sel_Fields rs) = Some sch"
        "vs1 = privCalls ctx (ci_L (tbl_Name tbl)) [SelectPriv]"
        "privApproved ctx (ci_L (tbl_Name tbl)) [SelectPriv]"
      and shape: "plan = PhysicalTableDual (Some sch)
                  \<or> (\<exists>p. plan = PointGet p \<and> schema p = sch \<and> TblInfo p = tbl)"
      by auto
    from run r1 Some have "\<exists>p. plan = PointGet p"
      by (cases plan) auto
    with shape obtain p where p: "plan = PointGet p" "schema p = sch" "TblInfo p = tbl"
      by auto
    with run r1 Some have "k ctx1 p = Inr (res, ctx')" by simp
    with r1 Some p t s1 show ?thesis by auto
  qed
qed

lemma columnLoop_result:
  "tryWhereIn2BatchPointGet_columnLoop E ctx rs e rows ch pr = Inr (res, ctx') \<Longrightarrow>
     \<exists>vs. sessionStep ctx vs ctx'
       \<and> (\<forall>ch' pr'. res = Some (ch', pr') \<longrightarrow>
            (\<exists>new. ch' = ch @ new \<and> length new = length rows
               \<and> pr' = pr @ replicate (length rows) 1
               \<and> (\<forall>c \<in> set new. stmtSchema E ctx (sel_From rs) (sel_Fields rs) = Some (schema c)
                                  \<and> stmtTable (sel_From rs) = Some (TblInfo c))
               \<and> vs = privCalls ctx (ci_L (tbl_Name (the (stmtTable (sel_From rs)))))
                         (replicate (length rows) SelectPriv)
               \<and> (rows \<noteq> [] \<longrightarrow>
                     privApproved ctx (ci_L (tbl_Name (the (stmtTable (sel_From rs))))) [SelectPriv])))"
proof (induction rows arbitrary: ctx ch pr)
  case Nil
  then show ?case by (auto intro!: exI [of _ "[]"])
next
  case (Cons row rows)
  let ?k = "\<lambda>ctx1 p. tryWhereIn2BatchPointGet_columnLoop E ctx1 rs e rows (ch @ [p]) (pr @ [1])"
  let ?T = "ci_L (tbl_Name (the (stmtTable (sel_From rs))))"
  from Cons.prems have run: "(case TryFastPlan E ctx
        (SelectStmtNode (rs\<lparr>sel_Where := Some (BinaryOperationExpr EQ e row)\<rparr>)) of
                 Inl pnc \<Rightarrow> Inl pnc
               | Inr (None, ctx1) \<Rightarrow> Inr (None, ctx1)
               | Inr (Some fp, ctx1) \<Rightarrow>
                   (case fp of PointGet p \<Rightarrow> ?k ctx1 p | _ \<Rightarrow> Inl PanicTypeAssertion))
               = Inr (res, ctx')"
    by simp
  from batch_step [OF _ run] consider
    (fail) "res = None" "\<exists>vs. sessionStep ctx vs ctx'"
    | (go) p ctx1 tbl where "?k ctx1 p = Inr (res, ctx')"
        "stmtTable (sel_From rs) = Some tbl" "TblInfo p = tbl"
        "stmtSchema E ctx (sel_From rs) (sel_Fields rs) = Some (schema p)"
        "sessionStep ctx (privCalls ctx (ci_L (tbl_Name tbl)) [SelectPriv]) ctx1"
        "privApproved ctx (ci_L (tbl_Name tbl)) [SelectPriv]"
    by blast
  then show ?case
  proof cases
    case fail
    then show ?thesis by auto
  next
    case go
    from Cons.IH [OF go(1)] obtain vs2 where
      s2: "sessionStep ctx1 vs2 ctx'"
      and f2: "\<forall>ch' pr'. res = Some (ch', pr') \<longrightarrow>
            (\<exists>new. ch' = (ch @ [p]) @ new \<and> length new = length rows
               \<and> pr' = (pr @ [1]) @ replicate (length rows) 1
               \<and> (\<forall>c \<in> set new. stmtSchema E ctx1 (sel_From rs) (sel_Fields rs) = Some (schema c)
                                  \<and> stmtTable (sel_From rs) = Some (TblInfo c))
               \<and> vs2 = privCalls ctx1 ?T (replicate (length rows) SelectPriv)
               \<and> (rows \<noteq> [] \<longrightarrow> privApproved ctx1 ?T [SelectPriv]))"
      by blast
    have T: "?T = ci_L (tbl_Name tbl)" using go(2) by simp
    note st = sessionStep_trans [OF go(5) s2]
    have sch: "stmtSchema E ctx1 (sel_From rs) (sel_Fields rs) = stmtSchema E ctx (sel_From rs) (sel_Fields rs)"
      using go(5) by (rule stmtSchema_ctx)
    have pc: "privCalls ctx1 ?T ks = privCalls ctx ?T ks" for ks
      using sessionStep_priv [OF go(5)] by blast
    show ?thesis
    proof (rule exI [of _ "privCalls ctx (ci_L (tbl_Name tbl)) [SelectPriv] @ vs2"], rule conjI,
        rule st, intro allI impI)
      fix ch' pr'
      assume "res = Some (ch', pr')"
      with f2 obtain new where n: "ch' = (ch @ [p]) @ new" "length new = length rows"
        "pr' = (pr @ [1]) @ replicate (length rows) 1"
        "\<forall>c \<in> set new. stmtSchema E ctx1 (sel_From rs) (sel_Fields rs) = Some (schema c)
                                  \<and> stmtTable (sel_From rs) = Some (TblInfo c)"
        "vs2 = privCalls ctx1 ?T (replicate (length rows) SelectPriv)"
        by blast
      show "\<exists>new. ch' = ch @ new \<and> length new = length (row # rows)
               \<and> pr' = pr @ replicate (length (row # rows)) 1
               \<and> (\<forall>c \<in> set new. stmtSchema E ctx (sel_From rs) (sel_Fields rs) = Some (schema c)
                                  \<and> stmtTable (sel_From rs) = Some (TblInfo c))
               \<and> privCalls ctx (ci_L (tbl_Name tbl)) [SelectPriv] @ vs2
                   = privCalls ctx ?T (replicate (length (row # rows)) SelectPriv)
               \<and> (row # rows \<noteq> [] \<longrightarrow> privApproved ctx ?T [SelectPriv])"
      proof (intro exI [of _ "p # new"] conjI)
        show "privCalls ctx (ci_L (tbl_Name tbl)) [SelectPriv] @ vs2
                = privCalls ctx ?T (replicate (length (row # rows)) SelectPriv)"
          using n(5) pc T privCalls_Cons [of ctx ?T SelectPriv "replicate (length rows) SelectPriv"]
          by simp
      qed (use n go sch T in \<open>auto simp: replicate_app_Cons_same\<close>)
    qed
  qed
qed

lemma rowLoop_result:
  "tryWhereIn2BatchPointGet_rowLoop E ctx rs ls rows ch pr = Inr (res, ctx') \<Longrightarrow>
     \<exists>vs. sessionStep ctx vs ctx'
       \<and> (\<forall>ch' pr'. res = Some (ch', pr') \<longrightarrow>
            (\<exists>new. ch' = ch @ new \<and> length new = length rows
               \<and> pr' = pr @ replicate (length rows) 1
               \<and> (\<forall>c \<in> set new. stmtSchema E ctx (sel_From rs) (sel_Fields rs) = Some (schema c)
                                  \<and> stmtTable (sel_From rs) = Some (TblInfo c))
               \<and> vs = privCalls ctx (ci_L (tbl_Name (the (stmtTable (sel_From rs)))))
                         (replicate (length rows) SelectPriv)
               \<and> (rows \<noteq> [] \<longrightarrow>
                     privApproved ctx (ci_L (tbl_Name (the (stmtTable (sel_From rs))))) [SelectPriv])))"
proof (induction rows arbitrary: ctx ch pr)
  case Nil
  then show ?case by (auto intro!: exI [of _ "[]"])
next
  case (Cons row rows)
  let ?k = "\<lambda>ctx1 p. tryWhereIn2BatchPointGet_rowLoop E ctx1 rs ls rows (ch @ [p]) (pr @ [1])"
  let ?T = "ci_L (tbl_Name (the (stmtTable (sel_From rs))))"
  show ?case
  proof (cases "\<exists>rvs. row = RowExpr rvs \<and> length rvs = length ls")
    case False
    with Cons.prems have "res = None \<and> ctx' = ctx"
      by (cases row) (auto split: if_splits)
    then show ?thesis by (auto intro!: exI [of _ "[]"])
  next
    case True
    then obtain rvs where row: "row = RowExpr rvs" "length rvs = length ls" by blast
  from Cons.prems row have run: "(case TryFastPlan E ctx
        (SelectStmtNode (rs\<lparr>sel_Where := Some (rowWhere ls rvs)\<rparr>)) of
                 Inl pnc \<Rightarrow> Inl pnc
               | Inr (None, ctx1) \<Rightarrow> Inr (None, ctx1)
               | Inr (Some fp, ctx1) \<Rightarrow>
                   (case fp of PointGet p \<Rightarrow> ?k ctx1 p | _ \<Rightarrow> Inl PanicTypeAssertion))
               = Inr (res, ctx')"
    by simp
  have nin: "\<forall>e l n. rowWhere ls rvs \<noteq> PatternInExpr e l n"
    using rowWhere_binop [of ls rvs] by auto
  from batch_step [OF nin run] consider
    (fail) "res = None" "\<exists>vs. sessionStep ctx vs ctx'"
    | (go) p ctx1 tbl where "?k ctx1 p = Inr (res, ctx')"
        "stmtTable (sel_From rs) = Some tbl" "TblInfo p = tbl"
        "stmtSchema E ctx (sel_From rs) (sel_Fields rs) = Some (schema p)"
        "sessionStep ctx (privCalls ctx (ci_L (tbl_Name tbl)) [SelectPriv]) ctx1"
        "privApproved ctx (ci_L (tbl_Name tbl)) [SelectPriv]"
    by blast
  then show ?thesis
  proof cases
    case fail
    then show ?thesis by auto
  next
    case go
    from Cons.IH [OF go(1)] obtain vs2 where
      s2: "sessionStep ctx1 vs2 ctx'"
      and f2: "\<forall>ch' pr'. res = Some (ch', pr') \<longrightarrow>
            (\<exists>new. ch' = (ch @ [p]) @ new \<and> length new = length rows
               \<and> pr' = (pr @ [1]) @ replicate (length rows) 1
               \<and> (\<forall>c \<in> set new. stmtSchema E ctx1 (sel_From rs) (sel_Fields rs) = Some (schema c)
                                  \<and> stmtTable (sel_From rs) = Some (TblInfo c))
               \<and> vs2 = privCalls ctx1 ?T (replicate (length rows) SelectPriv)
               \<and> (rows \<noteq> [] \<longrightarrow> privApproved ctx1 ?T [SelectPriv]))"
      by blast
    have T: "?T = ci_L (tbl_Name tbl)" using go(2) by simp
    note st = sessionStep_trans [OF go(5) s2]
    have sch: "stmtSchema E ctx1 (sel_From rs) (sel_Fields rs) = stmtSchema E ctx (sel_From rs) (sel_Fields rs)"
      using go(5) by (rule stmtSchema_ctx)
    have pc: "privCalls ctx1 ?T ks = privCalls ctx ?T ks" for ks
      using sessionStep_priv [OF go(5)] by blast
    show ?thesis
    proof (rule exI [of _ "privCalls ctx (ci_L (tbl_Name tbl)) [SelectPriv] @ vs2"], rule conjI,
        rule st, intro allI impI)
      fix ch' pr'
      assume "res = Some (ch', pr')"
      with f2 obtain new where n: "ch' = (ch @ [p]) @ new" "length new = length rows"
        "pr' = (pr @ [1]) @ replicate (length rows) 1"
        "\<forall>c \<in> set new. stmtSchema E ctx1 (sel_From rs) (sel_Fields rs) = Some (schema c)
                                  \<and> stmtTable (sel_From rs) = Some (TblInfo c)"
        "vs2 = privCalls ctx1 ?T (replicate (length rows) SelectPriv)"
        by blast
      show "\<exists>new. ch' = ch @ new \<and> length new = length (row # rows)
               \<and> pr' = pr @ replicate (length (row # rows)) 1
               \<and> (\<forall>c \<in> set new. stmtSchema E ctx (sel_From rs) (sel_Fields rs) = Some (schema c)
                                  \<and> stmtTable (sel_From rs) = Some (TblInfo c))
               \<and> privCalls ctx (ci_L (tbl_Name tbl)) [SelectPriv] @ vs2
                   = privCalls ctx ?T (replicate (length (row # rows)) SelectPriv)
               \<and> (row # rows \<noteq> [] \<longrightarrow> privApproved ctx ?T [SelectPriv])"
      proof (intro exI [of _ "p # new"] conjI)
        show "privCalls ctx (ci_L (tbl_Name tbl)) [SelectPriv] @ vs2
                = privCalls ctx ?T (replicate (length (row # rows)) SelectPriv)"
          using n(5) pc T privCalls_Cons [of ctx ?T SelectPriv "replicate (length rows) SelectPriv"]
          by simp
      qed (use n go sch T in \<open>auto simp: replicate_app_Cons_same\<close>)
    qed
  qed
qed
qed

lemma reusedSelectStmt_simps [simp]:
  "sel_From (reusedSelectStmt s) = sel_From s" "sel_Fields (reusedSelectStmt s) = sel_Fields s"
  by (simp_all add: reusedSelectStmt_def)

lemma tryWhereIn2BatchPointGet_result:
  assumes "tryWhereIn2BatchPointGet E ctx s = Inr (res, ctx')"
  shows "\<exists>vs. sessionStep ctx vs ctx'
       \<and> (\<forall>plan. res = Some plan \<longrightarrow>
            (\<exists>e l children.
               sel_Where s = Some (PatternInExpr e l False) \<and> l \<noteq> []
               \<and> plan = PhysicalUnionAll True (the (stmtSchema E ctx (sel_From s) (sel_Fields s)))
                          children (replicate (length l) 1)
               \<and> length children = length l
               \<and> (\<forall>c \<in> set children. stmtSchema E ctx (sel_From s) (sel_Fields s) = Some (schema c)
                                       \<and> stmtTable (sel_From s) = Some (TblInfo c))
               \<and> vs = privCalls ctx (ci_L (tbl_Name (the (stmtTable (sel_From s)))))
                         (replicate (length l) SelectPriv)
               \<and> privApproved ctx (ci_L (tbl_Name (the (stmtTable (sel_From s))))) [SelectPriv]))"
proof (cases "\<exists>e l. sel_Where s = Some (PatternInExpr e l False) \<and> l \<noteq> []
    \<and> sel_OrderBy s = None \<and> sel_GroupBy s = None \<and> sel_Limit s = None \<and> sel_Having s = None
    \<and> sel_WindowSpecs s = [] \<and> sel_LockTp s = SelectLockNone
    \<and> ((\<exists>cn. e = ColumnNameExpr cn) \<or> (\<exists>ls. e = RowExpr ls \<and> ls \<noteq> []))")
  case False
  with assms have "res = None \<and> ctx' = ctx"
    by (auto simp: tryWhereIn2BatchPointGet.simps split: option.splits ExprNode.splits if_splits)
  then show ?thesis by (auto intro!: exI [of _ "[]"])
next
  case True
  then obtain e l where w: "sel_Where s = Some (PatternInExpr e l False)" "l \<noteq> []"
    and chk: "sel_OrderBy s = None" "sel_GroupBy s = None" "sel_Limit s = None" "sel_Having s = None"
      "sel_WindowSpecs s = []" "sel_LockTp s = SelectLockNone"
    and shape: "(\<exists>cn. e = ColumnNameExpr cn) \<or> (\<exists>ls. e = RowExpr ls \<and> ls \<noteq> [])"
    by blast
  define loop where "loop =
    (case e of
       ColumnNameExpr cn \<Rightarrow> tryWhereIn2BatchPointGet_columnLoop E ctx (reusedSelectStmt s) e l [] []
     | RowExpr ls \<Rightarrow> tryWhereIn2BatchPointGet_rowLoop E ctx (reusedSelectStmt s) ls l [] []
     | _ \<Rightarrow> Inl PanicTypeAssertion)"
  have eq: "tryWhereIn2BatchPointGet E ctx s =
      (case loop of
         Inl pnc \<Rightarrow> Inl pnc
       | Inr (None, ctx1) \<Rightarrow> Inr (None, ctx1)
       | Inr (Some (children, chReqProps), ctx1) \<Rightarrow>
           (case children of
              [] \<Rightarrow> Inl PanicIndexOutOfRange
            | child # rest \<Rightarrow>
                Inr (Some (PhysicalUnionAll True (schema child) children chReqProps), ctx1)))"
    using w chk shape unfolding loop_def
    by (auto simp: tryWhereIn2BatchPointGet.simps)
  from assms eq obtain lres where lr: "loop = Inr (lres, ctx')"
    and res: "res = (case lres of None \<Rightarrow> None
                     | Some (children, chReqProps) \<Rightarrow>
                         Some (PhysicalUnionAll True (schema (hd children)) children chReqProps))"
      "lres \<noteq> Some ([], snd (the lres))"
    by (auto split: sum.splits option.splits prod.splits list.splits)
  have "\<exists>vs. sessionStep ctx vs ctx'
       \<and> (\<forall>ch' pr'. lres = Some (ch', pr') \<longrightarrow>
            (\<exists>new. ch' = [] @ new \<and> length new = length l
               \<and> pr' = [] @ replicate (length l) 1
               \<and> (\<forall>c \<in> set new. stmtSchema E ctx (sel_From (reusedSelectStmt s)) (sel_Fields (reusedSelectStmt s)) = Some (schema c)
                                  \<and> stmtTable (sel_From (reusedSelectStmt s)) = Some (TblInfo c))
               \<and> vs = privCalls ctx (ci_L (tbl_Name (the (stmtTable (sel_From (reusedSelectStmt s))))))
                         (replicate (length l) SelectPriv)
               \<and> (l \<noteq> [] \<longrightarrow>
                     privApproved ctx (ci_L (tbl_Name (the (stmtTable (sel_From (reusedSelectStmt s)))))) [SelectPriv])))"
  proof -
    have "tryWhereIn2BatchPointGet_columnLoop E ctx (reusedSelectStmt s) e l [] [] = Inr (lres, ctx')
          \<or> (\<exists>ls. tryWhereIn2BatchPointGet_rowLoop E ctx (reusedSelectStmt s) ls l [] [] = Inr (lres, ctx'))"
      using shape lr unfolding loop_def by auto
    then show ?thesis
      by (elim disjE exE) (erule columnLoop_result, erule rowLoop_result)
  qed
  then obtain vs where st: "sessionStep ctx vs ctx'"
    and f: "\<forall>ch' pr'. lres = Some (ch', pr') \<longrightarrow>
            (length ch' = length l
               \<and> pr' = replicate (length l) 1
               \<and> (\<forall>c \<in> set ch'. stmtSchema E ctx (sel_From s) (sel_Fields s) = Some (schema c)
                                  \<and> stmtTable (sel_From s) = Some (TblInfo c))
               \<and> vs = privCalls ctx (ci_L (tbl_Name (the (stmtTable (sel_From s)))))
                         (replicate (length l) SelectPriv)
               \<and> privApproved ctx (ci_L (tbl_Name (the (stmtTable (sel_From s))))) [SelectPriv])"
    using w(2) by auto
  show ?thesis
  proof (rule exI [of _ vs], rule conjI, rule st, intro allI impI)
    fix plan
    assume "res = Some plan"
    with res obtain ch' pr' where l: "lres = Some (ch', pr')"
      and plan: "plan = PhysicalUnionAll True (schema (hd ch')) ch' pr'"
      by (auto split: option.splits)
    from f l have facts: "length ch' = length l" "pr' = replicate (length l) 1"
      "\<forall>c \<in> set ch'. stmtSchema E ctx (sel_From s) (sel_Fields s) = Some (schema c)
                                  \<and> stmtTable (sel_From s) = Some (TblInfo c)"
      "vs = privCalls ctx (ci_L (tbl_Name (the (stmtTable (sel_From s)))))
                         (replicate (length l) SelectPriv)"
      "privApproved ctx (ci_L (tbl_Name (the (stmtTable (sel_From s))))) [SelectPriv]"
      by blast+
    from facts(1) w(2) have "ch' \<noteq> []" by auto
    then have "hd ch' \<in> set ch'" by simp
    with facts(3) have "schema (hd ch') = the (stmtSchema E ctx (sel_From s) (sel_Fields s))"
      by auto
    with plan facts w show "\<exists>e l children.
               sel_Where s = Some (PatternInExpr e l False) \<and> l \<noteq> []
               \<and> plan = PhysicalUnionAll True (the (stmtSchema E ctx (sel_From s) (sel_Fields s)))
                          children (replicate (length l) 1)
               \<and> length children = length l
               \<and> (\<forall>c \<in> set children. stmtSchema E ctx (sel_From s) (sel_Fields s) = Some (schema c)
                                       \<and> stmtTable (sel_From s) = Some (TblInfo c))
               \<and> vs = privCalls ctx (ci_L (tbl_Name (the (stmtTable (sel_From s)))))
                         (replicate (length l) SelectPriv)
               \<and> privApproved ctx (ci_L (tbl_Name (the (stmtTable (sel_From s))))) [SelectPriv]"
      by auto
  qed
qed

lemma TryFastPlan_select_result:
  assumes run: "TryFastPlan E ctx (SelectStmtNode x) = Inr (res, ctx')"
  shows "\<exists>vs. sessionStep ctx vs ctx'
       \<and> (\<forall>plan. res = Some plan \<longrightarrow>
            stmtTable (sel_From x) \<noteq> None
            \<and> privApproved ctx (ci_L (tbl_Name (the (stmtTable (sel_From x))))) [SelectPriv]
            \<and> ((\<exists>e l children.
                   sel_Where x = Some (PatternInExpr e l False)
                   \<and> plan = PhysicalUnionAll True (the (stmtSchema E ctx (sel_From x) (sel_Fields x)))
                              children (replicate (length l) 1)
                   \<and> length children = length l
                   \<and> (\<forall>c \<in> set children.
                         schema c = the (stmtSchema E ctx (sel_From x) (sel_Fields x)))
                   \<and> vs = privCalls ctx (ci_L (tbl_Name (the (stmtTable (sel_From x)))))
                             (replicate (length children) SelectPriv))
                \<or> ((plan = PhysicalTableDual (Some (the (stmtSchema E ctx (sel_From x) (sel_Fields x))))
                     \<or> (\<exists>p. plan = PointGet p))
                    \<and> vs = privCalls ctx (ci_L (tbl_Name (the (stmtTable (sel_From x))))) [SelectPriv])))"
proof (cases "\<exists>e l n. sel_Where x = Some (PatternInExpr e l n)")
  case False
  then have nin: "\<forall>e l n. sel_Where x \<noteq> Some (PatternInExpr e l n)" by blast
  from TryFastPlan_single_result [OF nin, of E ctx] run show ?thesis
    by (elim exE conjE) (rule exI, auto)
next
  case True
  then obtain e l n where w: "sel_Where x = Some (PatternInExpr e l n)" by blast
  have single: "tryPointGetPlan E c x = (None, c)" for c
    using w by (rule tryPointGetPlan_in)
  from run obtain bres where b: "tryWhereIn2BatchPointGet E ctx x = Inr (bres, ctx')"
    and r: "res = bres"
    by (auto simp: TryFastPlan.simps(1) single split: sum.splits option.splits prod.splits)
  from tryWhereIn2BatchPointGet_result [OF b] obtain vs where
    st: "sessionStep ctx vs ctx'"
    and f: "\<forall>plan. bres = Some plan \<longrightarrow>
            (\<exists>e l children.
               sel_Where x = Some (PatternInExpr e l False) \<and> l \<noteq> []
               \<and> plan = PhysicalUnionAll True (the (stmtSchema E ctx (sel_From x) (sel_Fields x)))
                          children (replicate (length l) 1)
               \<and> length children = length l
               \<and> (\<forall>c \<in> set children. stmtSchema E ctx (sel_From x) (sel_Fields x) = Some (schema c)
                                       \<and> stmtTable (sel_From x) = Some (TblInfo c))
               \<and> vs = privCalls ctx (ci_L (tbl_Name (the (stmtTable (sel_From x)))))
                         (replicate (length l) SelectPriv)
               \<and> privApproved ctx (ci_L (tbl_Name (the (stmtTable (sel_From x))))) [SelectPriv])"
    by blast
  show ?thesis
  proof (rule exI [of _ vs], rule conjI, rule st, intro allI impI)
    fix plan
    assume "res = Some plan"
    with r f obtain e l children where u: "sel_Where x = Some (PatternInExpr e l False)" "l \<noteq> []"
      "plan = PhysicalUnionAll True (the (stmtSchema E ctx (sel_From x) (sel_Fields x)))
                          children (replicate (length l) 1)"
      "length children = length l"
      "\<forall>c \<in> set children. stmtSchema E ctx (sel_From x) (sel_Fields x) = Some (schema c)
                                       \<and> stmtTable (sel_From x) = Some (TblInfo c)"
      "vs = privCalls ctx (ci_L (tbl_Name (the (stmtTable (sel_From x)))))
                         (replicate (length l) SelectPriv)"
      "privApproved ctx (ci_L (tbl_Name (the (stmtTable (sel_From x))))) [SelectPriv]"
      by blast
    from u(2,4) obtain c where "c \<in> set children" by (cases children) auto
    with u(5) have tb: "stmtTable (sel_From x) \<noteq> None" by auto
    from u(5) have sc: "\<forall>c \<in> set children.
                         schema c = the (stmtSchema E ctx (sel_From x) (sel_Fields x))" by auto
    from u tb sc show "stmtTable (sel_From x) \<noteq> None
            \<and> privApproved ctx (ci_L (tbl_Name (the (stmtTable (sel_From x))))) [SelectPriv]
            \<and> ((\<exists>e l children.
                   sel_Where x = Some (PatternInExpr e l False)
                   \<and> plan = PhysicalUnionAll True (the (stmtSchema E ctx (sel_From x) (sel_Fields x)))
                              children (replicate (length l) 1)
                   \<and> length children = length l
                   \<and> (\<forall>c \<in> set children.
                         schema c = the (stmtSchema E ctx (sel_From x) (sel_Fields x)))
                   \<and> vs = privCalls ctx (ci_L (tbl_Name (the (stmtTable (sel_From x)))))
                             (replicate (length children) SelectPriv))
                \<or> ((plan = PhysicalTableDual (Some (the (stmtSchema E ctx (sel_From x) (sel_Fields x))))
                     \<or> (\<exists>p. plan = PointGet p))
                    \<and> vs = privCalls ctx (ci_L (tbl_Name (the (stmtTable (sel_From x))))) [SelectPriv]))"
      by auto
  qed
qed

lemma mutation_selStmt_simps [simp]:
  "sel_From (tryUpdatePointPlan_selStmt u) = upd_TableRefs u"
  "sel_Fields (tryUpdatePointPlan_selStmt u) = []"
  "sel_From (tryDeletePointPlan_selStmt d) = del_TableRefs d"
  "sel_Fields (tryDeletePointPlan_selStmt d) = []"
  by (simp_all add: tryUpdatePointPlan_selStmt_def tryDeletePointPlan_selStmt_def)

lemma tryMutation_step:
  assumes single: "tryPointGetPlan E ctx sel = (Some fp, ctx1)"
    and priv: "checkFastPlanPrivilege ctx1 fp kinds = (None, ctx2)"
  shows "stmtTable (sel_From sel) = Some (TblInfo fp)
       \<and> sessionStep ctx (privCalls ctx (ci_L (tbl_Name (TblInfo fp))) kinds) ctx2
       \<and> privApproved ctx (ci_L (tbl_Name (TblInfo fp))) kinds"
proof -
  have s1: "sessionStep ctx [] ctx1"
    using single by (rule tryPointGetPlan_step)
  from checkFastPlanPrivilege_step [OF priv] obtain vs where
    s2: "sessionStep ctx1 vs ctx2"
    and ok: "vs = privCalls ctx1 (ci_L (tbl_Name (TblInfo fp))) kinds"
      "privApproved ctx1 (ci_L (tbl_Name (TblInfo fp))) kinds"
    by blast
  from sessionStep_trans [OF s1 s2] ok sessionStep_priv [OF s1] tryPointGetPlan_Some_stmt [OF single]
  show ?thesis by simp
qed

lemma tryMutation_fail_step:
  assumes single: "tryPointGetPlan E ctx sel = (r, ctx1)"
    and priv: "checkFastPlanPrivilege ctx1 fp kinds = (err, ctx2)"
  shows "\<exists>vs. sessionStep ctx vs ctx2"
proof -
  have s1: "sessionStep ctx [] ctx1"
    using single by (rule tryPointGetPlan_step)
  from checkFastPlanPrivilege_step [OF priv] obtain vs where
    s2: "sessionStep ctx1 vs ctx2" by blast
  from sessionStep_trans [OF s1 s2] show ?thesis by auto
qed

lemma tryUpdatePointPlan_result:
  assumes run: "tryUpdatePointPlan E ctx u = Inr (res, ctx')"
  shows "\<exists>vs. sessionStep ctx vs ctx'
       \<and> (\<forall>plan. res = Some plan \<longrightarrow>
            stmtTable (upd_TableRefs u) \<noteq> None
            \<and> vs = privCalls ctx (ci_L (tbl_Name (the (stmtTable (upd_TableRefs u)))))
                      [SelectPriv, UpdatePriv]
            \<and> privApproved ctx (ci_L (tbl_Name (the (stmtTable (upd_TableRefs u)))))
                  [SelectPriv, UpdatePriv])"
proof -
  let ?sel = "tryUpdatePointPlan_selStmt u"
  obtain r ctx1 where single: "tryPointGetPlan E ctx ?sel = (r, ctx1)"
    by (cases "tryPointGetPlan E ctx ?sel")
  show ?thesis
  proof (cases r)
    case None
    with run single have "res = None" "ctx' = ctx1"
      by (auto simp: tryUpdatePointPlan_def)
    with tryPointGetPlan_step [OF single] show ?thesis by auto
  next
    case (Some fp)
    obtain err ctx2 where priv: "checkFastPlanPrivilege ctx1 fp [SelectPriv, UpdatePriv] = (err, ctx2)"
      by (cases "checkFastPlanPrivilege ctx1 fp [SelectPriv, UpdatePriv]")
    from run single Some priv have c: "ctx' = ctx2"
      by (auto simp: tryUpdatePointPlan_def Let_def split: option.splits sum.splits if_splits prod.splits)
    show ?thesis
    proof (cases err)
      case (Some e)
      with run single \<open>r = Some fp\<close> priv have "res = None"
        by (auto simp: tryUpdatePointPlan_def)
      with tryMutation_fail_step [OF single priv] c show ?thesis by auto
    next
      case None
      from single \<open>r = Some fp\<close> have s: "tryPointGetPlan E ctx ?sel = (Some fp, ctx1)" by simp
      from priv None have p: "checkFastPlanPrivilege ctx1 fp [SelectPriv, UpdatePriv] = (None, ctx2)"
        by simp
      from tryMutation_step [OF s p] c show ?thesis by auto
    qed
  qed
qed

lemma tryDeletePointPlan_result:
  assumes run: "tryDeletePointPlan E ctx d = Inr (res, ctx')"
  shows "\<exists>vs. sessionStep ctx vs ctx'
       \<and> (\<forall>plan. res = Some plan \<longrightarrow>
            stmtTable (del_TableRefs d) \<noteq> None
            \<and> vs = privCalls ctx (ci_L (tbl_Name (the (stmtTable (del_TableRefs d)))))
                      [SelectPriv, DeletePriv]
            \<and> privApproved ctx (ci_L (tbl_Name (the (stmtTable (del_TableRefs d)))))
                  [SelectPriv, DeletePriv])"
proof (cases "del_IsMultiTable d")
  case True
  with run show ?thesis by (auto simp: tryDeletePointPlan_def intro!: exI [of _ "[]"])
next
  case False
  let ?sel = "tryDeletePointPlan_selStmt d"
  obtain r ctx1 where single: "tryPointGetPlan E ctx ?sel = (r, ctx1)"
    by (cases "tryPointGetPlan E ctx ?sel")
  show ?thesis
  proof (cases r)
    case None
    with run single False have "res = None" "ctx' = ctx1"
      by (auto simp: tryDeletePointPlan_def)
    with tryPointGetPlan_step [OF single] show ?thesis by auto
  next
    case (Some fp)
    obtain err ctx2 where priv: "checkFastPlanPrivilege ctx1 fp [SelectPriv, DeletePriv] = (err, ctx2)"
      by (cases "checkFastPlanPrivilege ctx1 fp [SelectPriv, DeletePriv]")
    from run single Some priv False have c: "ctx' = ctx2"
      by (auto simp: tryDeletePointPlan_def Let_def split: option.splits sum.splits if_splits prod.splits)
    show ?thesis
    proof (cases err)
      case (Some e)
      with run single \<open>r = Some fp\<close> priv False have "res = None"
        by (auto simp: tryDeletePointPlan_def)
      with tryMutation_fail_step [OF single priv] c show ?thesis by auto
    next
      case None
      from single \<open>r = Some fp\<close> have s: "tryPointGetPlan E ctx ?sel = (Some fp, ctx1)" by simp
      from priv None have p: "checkFastPlanPrivilege ctx1 fp [SelectPriv, DeletePriv] = (None, ctx2)"
        by simp
      from tryMutation_step [OF s p] c show ?thesis by auto
    qed
  qed
qed



lemma columnLoop_append:
  "tryWhereIn2BatchPointGet_columnLoop E ctx rs e (pre @ post) ch pr =
     (case tryWhereIn2BatchPointGet_columnLoop E ctx rs e pre ch pr of
        Inl pnc \<Rightarrow> Inl pnc
      | Inr (None, ctx1) \<Rightarrow> Inr (None, ctx1)
      | Inr (Some (ch1, pr1), ctx1) \<Rightarrow>
          tryWhereIn2BatchPointGet_columnLoop E ctx1 rs e post ch1 pr1)"
proof (induction pre arbitrary: ctx ch pr)
  case Nil
  show ?case by simp
next
  case (Cons row pre)
  show ?case
    by (simp add: Cons.IH split: sum.splits option.splits prod.splits Plan.splits)
qed

lemma rowLoop_append:
  "tryWhereIn2BatchPointGet_rowLoop E ctx rs ls (pre @ post) ch pr =
     (case tryWhereIn2BatchPointGet_rowLoop E ctx rs ls pre ch pr of
        Inl pnc \<Rightarrow> Inl pnc
      | Inr (None, ctx1) \<Rightarrow> Inr (None, ctx1)
      | Inr (Some (ch1, pr1), ctx1) \<Rightarrow>
          tryWhereIn2BatchPointGet_rowLoop E ctx1 rs ls post ch1 pr1)"
proof (induction pre arbitrary: ctx ch pr)
  case Nil
  show ?case by simp
next
  case (Cons row pre)
  show ?case
    by (simp add: Cons.IH split: sum.splits option.splits prod.splits Plan.splits ExprNode.splits)
qed

section \<open>The claims\<close>

text \<open>
  Claim C1, amended. For a single-pair match of the primary-key handle the conversion has
  four outcomes, not three: an overflow gives a plan with \<^verbatim>\<open>IsTableDual\<close>; any error
  other than overflow and truncation gives nil; otherwise (no error, or a truncation) the
  converted value is compared back with the original, and a failing comparison gives nil,
  an unequal one a plan with \<^verbatim>\<open>IsTableDual\<close>, an equal one the plan with the converted
  value as \<^verbatim>\<open>Handle\<close>.
\<close>
theorem C1_handle_reconciliation:
  assumes "sel_Having selStmt = None"
    and "case sel_Limit selStmt of
           None \<Rightarrow> True
         | Some lim \<Rightarrow> (case extractLimitCountOffset E lim of
                          Inl e \<Rightarrow> False
                        | Inr (count, offset) \<Rightarrow> count \<noteq> 0 \<and> offset = 0)"
    and "getSingleTableNameAndAlias (sel_From selStmt) = (Some tblName, tblAlias)"
    and "tn_TableInfo tblName = Some tbl"
    and "GetPartitionInfo tbl = None"
    and "\<forall>col \<in> set (tbl_Columns tbl). \<not> IsGenerated col \<and> col_State col = StatePublic"
    and "sel_Where selStmt = Some w"
    and "getNameValuePairs [] tblAlias w = Some [pair]"
    and "findPKHandle tbl [pair] = (pair, Some ft)"
    and "buildSchemaFromFields E ctx (tn_Schema tblName) tbl tblAlias (sel_Fields selStmt) = Some sch"
    and "ConvertTo E (value pair) ft = (intDatum, err)"
  shows "(err = Some ErrOverflow \<longrightarrow>
            (\<exists>p. fst (tryPointGetPlan E ctx selStmt) = Some p \<and> IsTableDual p))
       \<and> (err \<noteq> None \<and> err \<noteq> Some ErrOverflow \<and> err \<noteq> Some ErrTruncatedWrongVal \<longrightarrow>
            fst (tryPointGetPlan E ctx selStmt) = None)
       \<and> (err = None \<or> err = Some ErrTruncatedWrongVal \<longrightarrow>
            (case CompareDatum E intDatum (value pair) of
               Inl e \<Rightarrow> fst (tryPointGetPlan E ctx selStmt) = None
             | Inr cmp \<Rightarrow>
                 (\<exists>p. fst (tryPointGetPlan E ctx selStmt) = Some p
                    \<and> (if cmp \<noteq> 0 then IsTableDual p
                        else \<not> IsTableDual p \<and> Handle p = GetInt64 intDatum
                           \<and> UnsignedHandle p = HasUnsignedFlag (Flag ft)
                           \<and> HandleParam p = param pair \<and> IndexInfo p = None))))"
proof -
  have nn: "datum_k (value pair) \<noteq> KindNull"
    using assms(8) by (rule getNameValuePairs_single_value)
  have lim: "\<not> (case sel_Limit selStmt of None \<Rightarrow> False
               | Some lim \<Rightarrow> (case extractLimitCountOffset E lim of Inl err \<Rightarrow> True
                              | Inr (count, offset) \<Rightarrow> count = 0 \<or> offset > 0))"
    using assms(2) by (auto split: option.splits sum.splits)
  have cols: "\<not> list_ex (\<lambda>col. IsGenerated col \<or> col_State col \<noteq> StatePublic) (tbl_Columns tbl)"
    using assms(6) by (auto simp: list_ex_iff)
  have body: "tryPointGetPlan E ctx selStmt =
      (case newPointGetPlan ctx sch (if ci_L (tn_Schema tblName) = []
                                    then NewCIStr E (CurrentDB ctx) else tn_Schema tblName) tbl of
         (p, ctx1) \<Rightarrow>
           if err = Some ErrOverflow then (Some (p\<lparr>IsTableDual := True\<rparr>), ctx1)
           else if err \<noteq> None \<and> err \<noteq> Some ErrTruncatedWrongVal then (None, ctx1)
           else (case CompareDatum E intDatum (value pair) of
                   Inl err2 \<Rightarrow> (None, ctx1)
                 | Inr cmp \<Rightarrow>
                     if cmp \<noteq> 0 then (Some (p\<lparr>IsTableDual := True\<rparr>), ctx1)
                     else (Some (p\<lparr>Handle := GetInt64 intDatum,
                                    UnsignedHandle := HasUnsignedFlag (Flag ft),
                                    HandleParam := param pair\<rparr>), ctx1)))"
    unfolding tryPointGetPlan_def
    using assms(1,3,4,5,7,8,9,10,11) nn lim cols by (simp add: Let_def split del: if_split cong: if_cong)
  show ?thesis
    unfolding body newPointGetPlan_def by (cases "CompareDatum E intDatum (value pair)") auto
qed

theorem C1_handle_reconciliation_witness:
  "(\<exists>p. fst (tryPointGetPlan ex_collaborators ex_ctx
              (ex_select_pk_value (NewUintDatum 0x8000000000000000))) = Some p \<and> IsTableDual p)
   \<and> fst (tryPointGetPlan ex_collaborators ex_ctx (ex_select_pk_value ex_unconvertible)) = None
   \<and> (\<exists>p. fst (tryPointGetPlan ex_collaborators ex_ctx (ex_select_pk_value (NewIntDatum 1))) = Some p
          \<and> \<not> IsTableDual p \<and> Handle p = 1)
   \<and> (\<exists>p. fst (tryPointGetPlan ex_collaborators ex_ctx
                (ex_select_pk_value (NewStringDatum ''1x''))) = Some p \<and> IsTableDual p)"
proof -
  let ?ft = "\<lparr>Tp = 8, Flag = 3\<rparr>"
  let ?sch = "the (buildSchemaFromFields ex_collaborators ex_ctx (tn_Schema ex_t1_tableName)
                     ex_t1 (tbl_Name ex_t1) [ex_star])"
  have sch: "buildSchemaFromFields ex_collaborators ex_ctx (tn_Schema ex_t1_tableName) ex_t1
               (tbl_Name ex_t1) (sel_Fields (ex_select_pk_value d)) = Some ?sch" for d
    by (simp add: ex_select_pk_value_def ex_select_def) code_simp
  have hv: "sel_Having (ex_select_pk_value d) = None" for d
    by (simp add: ex_select_pk_value_def ex_select_def)
  have lm: "case sel_Limit (ex_select_pk_value d) of None \<Rightarrow> True
            | Some lim \<Rightarrow> (case extractLimitCountOffset ex_collaborators lim of Inl e \<Rightarrow> False
                           | Inr (count, offset) \<Rightarrow> count \<noteq> 0 \<and> offset = 0)" for d
    by (simp add: ex_select_pk_value_def ex_select_def)
  have fr: "getSingleTableNameAndAlias (sel_From (ex_select_pk_value d))
              = (Some ex_t1_tableName, tbl_Name ex_t1)" for d
    by (simp add: ex_select_pk_value_def ex_select_def) code_simp
  have ti: "tn_TableInfo ex_t1_tableName = Some ex_t1"
    by (simp add: ex_t1_tableName_def)
  have pt: "GetPartitionInfo ex_t1 = None"
    by code_simp
  have cl: "\<forall>col \<in> set (tbl_Columns ex_t1). \<not> IsGenerated col \<and> col_State col = StatePublic"
    by code_simp
  have wh: "sel_Where (ex_select_pk_value d) = Some (ex_eq ''c1'' d)" for d
    by (simp add: ex_select_pk_value_def ex_select_def)
  note inst = C1_handle_reconciliation [where E = ex_collaborators and ctx = ex_ctx
      and tblName = ex_t1_tableName and tblAlias = "tbl_Name ex_t1" and tbl = ex_t1
      and ft = ?ft and sch = ?sch, OF hv lm fr ti pt cl wh _ _ sch]
  have a: "\<exists>p. fst (tryPointGetPlan ex_collaborators ex_ctx
              (ex_select_pk_value (NewUintDatum 0x8000000000000000))) = Some p \<and> IsTableDual p"
  proof -
    let ?d = "NewUintDatum 0x8000000000000000"
    have 1: "getNameValuePairs [] (tbl_Name ex_t1) (ex_eq ''c1'' ?d) = Some [ex_pair ?d]"
      and 2: "findPKHandle ex_t1 [ex_pair ?d] = (ex_pair ?d, Some ?ft)"
      and 3: "ConvertTo ex_collaborators (value (ex_pair ?d)) ?ft
                = (NewIntDatum 0x7FFFFFFFFFFFFFFF, Some ErrOverflow)"
      by code_simp+
    from inst [OF 1 2 3] show ?thesis by simp
  qed
  have b: "fst (tryPointGetPlan ex_collaborators ex_ctx (ex_select_pk_value ex_unconvertible)) = None"
  proof -
    let ?d = "ex_unconvertible"
    have 1: "getNameValuePairs [] (tbl_Name ex_t1) (ex_eq ''c1'' ?d) = Some [ex_pair ?d]"
      and 2: "findPKHandle ex_t1 [ex_pair ?d] = (ex_pair ?d, Some ?ft)"
      and 3: "ConvertTo ex_collaborators (value (ex_pair ?d)) ?ft = (zeroDatum, Some (ErrOther 0))"
      by code_simp+
    from inst [OF 1 2 3] show ?thesis by simp
  qed
  have c: "\<exists>p. fst (tryPointGetPlan ex_collaborators ex_ctx (ex_select_pk_value (NewIntDatum 1))) = Some p
          \<and> \<not> IsTableDual p \<and> Handle p = 1"
  proof -
    let ?d = "NewIntDatum 1"
    have 1: "getNameValuePairs [] (tbl_Name ex_t1) (ex_eq ''c1'' ?d) = Some [ex_pair ?d]"
      and 2: "findPKHandle ex_t1 [ex_pair ?d] = (ex_pair ?d, Some ?ft)"
      and 3: "ConvertTo ex_collaborators (value (ex_pair ?d)) ?ft = (NewIntDatum 1, None)"
      and 4: "CompareDatum ex_collaborators (NewIntDatum 1) (value (ex_pair ?d)) = Inr 0"
      and 5: "GetInt64 (NewIntDatum 1) = 1"
      by code_simp+
    from inst [OF 1 2 3] 4 5 show ?thesis by auto
  qed
  have d: "\<exists>p. fst (tryPointGetPlan ex_collaborators ex_ctx
                (ex_select_pk_value (NewStringDatum ''1x''))) = Some p \<and> IsTableDual p"
  proof -
    let ?d = "NewStringDatum ''1x''"
    have 1: "getNameValuePairs [] (tbl_Name ex_t1) (ex_eq ''c1'' ?d) = Some [ex_pair ?d]"
      and 2: "findPKHandle ex_t1 [ex_pair ?d] = (ex_pair ?d, Some ?ft)"
      and 3: "ConvertTo ex_collaborators (value (ex_pair ?d)) ?ft
                = (NewIntDatum 0, Some ErrTruncatedWrongVal)"
      and 4: "CompareDatum ex_collaborators (NewIntDatum 0) (value (ex_pair ?d)) = Inr 1"
      by code_simp+
    from inst [OF 1 2 3] 4 show ?thesis by auto
  qed
  from a b c d show ?thesis by blast
qed

text \<open>
  The claim as stated fails on a value whose conversion reports an error that is neither
  overflow nor truncation: the pair matches the primary-key handle, and the result is nil,
  none of the three outcomes.
\<close>

theorem C1_three_outcomes_counterexample:
  "findPKHandle ex_t1 [ex_pair ex_unconvertible] = (ex_pair ex_unconvertible, Some \<lparr>Tp = 8, Flag = 3\<rparr>)
   \<and> ConvertTo ex_collaborators ex_unconvertible \<lparr>Tp = 8, Flag = 3\<rparr> = (zeroDatum, Some (ErrOther 0))
   \<and> fst (tryPointGetPlan ex_collaborators ex_ctx (ex_select_pk_value ex_unconvertible)) = None"
  by code_simp

text \<open>
  Claim C2 fails on the code: when a candidate of the \<^verbatim>\<open>IN\<close> list overflows the key type,
  \<^verbatim>\<open>TryFastPlan\<close> returns a table-dual plan for it and the type assertion of the batch
  path panics. Here the statement is \<^verbatim>\<open>SELECT * FROM t1 WHERE c1 IN (9223372036854775808)\<close>.
\<close>

theorem C2_batch_table_dual_panics:
  "TryFastPlan ex_collaborators ex_ctx
     (SelectStmtNode (ex_select_pk_in [NewUintDatum 0x8000000000000000])) = Inl PanicTypeAssertion"
proof -
  let ?r = "TryFastPlan ex_collaborators ex_ctx
     (SelectStmtNode (ex_select_pk_in [NewUintDatum 0x8000000000000000]))"
  have "isl ?r" and "projl ?r = PanicTypeAssertion"
    by code_simp+
  then show ?thesis
    by (cases ?r) auto
qed

text \<open>
  Claim C3, amended. Every batch-union plan comes from a positive \<^verbatim>\<open>IN\<close> predicate, its
  children all have the schema of the union, and their number is the number of elements
  of the \<^verbatim>\<open>IN\<close> list, duplicates counted.
\<close>
theorem C3_batch_union_children:
  assumes "TryFastPlan E ctx (SelectStmtNode x) = Inr (Some (PhysicalUnionAll b sch children props), ctx')"
  shows "\<exists>e l. sel_Where x = Some (PatternInExpr e l False)
           \<and> length children = length l \<and> (\<forall>c \<in> set children. schema c = sch)"
  using TryFastPlan_select_result [OF assms] by auto

theorem C3_batch_union_children_witness:
  "length (ua_children (the (fst (projr (TryFastPlan ex_collaborators ex_ctx
       (SelectStmtNode (ex_select_pk_in [NewIntDatum 1, NewIntDatum 2]))))))) = 2
   \<and> map schema (ua_children (the (fst (projr (TryFastPlan ex_collaborators ex_ctx
              (SelectStmtNode (ex_select_pk_in [NewIntDatum 1, NewIntDatum 2])))))))
       = replicate 2 (ua_schema (the (fst (projr (TryFastPlan ex_collaborators ex_ctx
              (SelectStmtNode (ex_select_pk_in [NewIntDatum 1, NewIntDatum 2])))))))"
proof -
  let ?x = "ex_select_pk_in [NewIntDatum 1, NewIntDatum 2]"
  let ?r = "TryFastPlan ex_collaborators ex_ctx (SelectStmtNode ?x)"
  let ?P = "the (fst (projr ?r))"
  have "\<not> isl ?r"
    and "fst (projr ?r) = Some (PhysicalUnionAll (IsPointGetUnion ?P) (ua_schema ?P)
                                 (ua_children ?P) (ua_chReqProps ?P))"
    by code_simp+
  then have run: "?r = Inr (Some (PhysicalUnionAll (IsPointGetUnion ?P) (ua_schema ?P)
                                    (ua_children ?P) (ua_chReqProps ?P)), snd (projr ?r))"
    by (rule Inr_collapse)
  have w: "sel_Where ?x = Some (PatternInExpr (ex_colref ''c1'')
                                  [ValueExpr (NewIntDatum 1), ValueExpr (NewIntDatum 2)] False)"
    by (simp add: ex_select_pk_in_def ex_select_def)
  from C3_batch_union_children [OF run] w
  have "length (ua_children ?P) = 2" and "\<forall>c \<in> set (ua_children ?P). schema c = ua_schema ?P"
    by auto
  then show ?thesis
    by (simp add: map_eq_replicate)
qed

text \<open>
  The claim as stated counts distinct value tuples: \<^verbatim>\<open>SELECT * FROM t1 WHERE c1 IN (1, 1)\<close>
  has one distinct value and gives a union of two children.
\<close>

theorem C3_distinct_tuples_counterexample:
  "is_PhysicalUnionAll (the (fst (projr (TryFastPlan ex_collaborators ex_ctx
       (SelectStmtNode (ex_select_pk_in [NewIntDatum 1, NewIntDatum 1]))))))
   \<and> length (ua_children (the (fst (projr (TryFastPlan ex_collaborators ex_ctx
       (SelectStmtNode (ex_select_pk_in [NewIntDatum 1, NewIntDatum 1]))))))) = 2
   \<and> length (remdups [NewIntDatum 1, NewIntDatum 1]) = 1"
  by code_simp

text \<open>
  Claim C5. A plan returned by \<^verbatim>\<open>tryWhereIn2BatchPointGet\<close> is a union with one child for
  every element of the \<^verbatim>\<open>IN\<close> list, never fewer; and when the loop, having produced a
  child for every earlier candidate, re-runs \<^verbatim>\<open>TryFastPlan\<close> on a rewritten candidate (a
  scalar element or a row tuple) and gets nil, \<^verbatim>\<open>tryWhereIn2BatchPointGet\<close> returns nil.
\<close>
theorem C5_batch_all_or_nothing:
  "(tryWhereIn2BatchPointGet E ctx selStmt = Inr (Some plan, ctx') \<longrightarrow>
      (\<exists>inExpr inList. sel_Where selStmt = Some (PatternInExpr inExpr inList False)
         \<and> is_PhysicalUnionAll plan \<and> length (ua_children plan) = length inList))
   \<and> (sel_Where selStmt = Some (PatternInExpr (ColumnNameExpr cn) (pre @ row # post) inNot)
       \<and> tryWhereIn2BatchPointGet_columnLoop E ctx (reusedSelectStmt selStmt) (ColumnNameExpr cn)
           pre [] [] = Inr (Some (ch1, pr1), ctx1)
       \<and> TryFastPlan E ctx1 (SelectStmtNode ((reusedSelectStmt selStmt)
             \<lparr>sel_Where := Some (BinaryOperationExpr EQ (ColumnNameExpr cn) row)\<rparr>)) = Inr (None, ctx2)
      \<longrightarrow> (\<exists>c. tryWhereIn2BatchPointGet E ctx selStmt = Inr (None, c)))
   \<and> (sel_Where selStmt = Some (PatternInExpr (RowExpr leftValues)
                                  (pre @ RowExpr rightValues # post) inNot)
       \<and> length rightValues = length leftValues
       \<and> tryWhereIn2BatchPointGet_rowLoop E ctx (reusedSelectStmt selStmt) leftValues
           pre [] [] = Inr (Some (ch1, pr1), ctx1)
       \<and> TryFastPlan E ctx1 (SelectStmtNode ((reusedSelectStmt selStmt)
             \<lparr>sel_Where := Some (rowWhere leftValues rightValues)\<rparr>)) = Inr (None, ctx2)
      \<longrightarrow> (\<exists>c. tryWhereIn2BatchPointGet E ctx selStmt = Inr (None, c)))"
proof (intro conjI impI)
  assume "tryWhereIn2BatchPointGet E ctx selStmt = Inr (Some plan, ctx')"
  from tryWhereIn2BatchPointGet_result [OF this]
  show "\<exists>inExpr inList. sel_Where selStmt = Some (PatternInExpr inExpr inList False)
         \<and> is_PhysicalUnionAll plan \<and> length (ua_children plan) = length inList"
    by auto
next
  assume h: "sel_Where selStmt = Some (PatternInExpr (ColumnNameExpr cn) (pre @ row # post) inNot)
       \<and> tryWhereIn2BatchPointGet_columnLoop E ctx (reusedSelectStmt selStmt) (ColumnNameExpr cn)
           pre [] [] = Inr (Some (ch1, pr1), ctx1)
       \<and> TryFastPlan E ctx1 (SelectStmtNode ((reusedSelectStmt selStmt)
             \<lparr>sel_Where := Some (BinaryOperationExpr EQ (ColumnNameExpr cn) row)\<rparr>)) = Inr (None, ctx2)"
  then have "tryWhereIn2BatchPointGet_columnLoop E ctx (reusedSelectStmt selStmt) (ColumnNameExpr cn)
           (pre @ row # post) [] [] = Inr (None, ctx2)"
    by (simp add: columnLoop_append)
  with h show "\<exists>c. tryWhereIn2BatchPointGet E ctx selStmt = Inr (None, c)"
    by (simp add: tryWhereIn2BatchPointGet.simps)
next
  assume h: "sel_Where selStmt = Some (PatternInExpr (RowExpr leftValues)
                                  (pre @ RowExpr rightValues # post) inNot)
       \<and> length rightValues = length leftValues
       \<and> tryWhereIn2BatchPointGet_rowLoop E ctx (reusedSelectStmt selStmt) leftValues
           pre [] [] = Inr (Some (ch1, pr1), ctx1)
       \<and> TryFastPlan E ctx1 (SelectStmtNode ((reusedSelectStmt selStmt)
             \<lparr>sel_Where := Some (rowWhere leftValues rightValues)\<rparr>)) = Inr (None, ctx2)"
  then have "tryWhereIn2BatchPointGet_rowLoop E ctx (reusedSelectStmt selStmt) leftValues
           (pre @ RowExpr rightValues # post) [] [] = Inr (None, ctx2)"
    by (simp add: rowLoop_append)
  with h show "\<exists>c. tryWhereIn2BatchPointGet E ctx selStmt = Inr (None, c)"
    by (simp add: tryWhereIn2BatchPointGet.simps)
qed

theorem C5_batch_all_or_nothing_witness:
  "length (ua_children (the (fst (projr (tryWhereIn2BatchPointGet ex_collaborators ex_ctx
       (ex_select_pk_in [NewIntDatum 1, NewIntDatum 2])))))) = 2
   \<and> (\<exists>c. tryWhereIn2BatchPointGet ex_collaborators ex_ctx
             (ex_select_pk_in [NewIntDatum 1, zeroDatum]) = Inr (None, c))
   \<and> (\<exists>c. tryWhereIn2BatchPointGet ex_collaborators ex_ctx
             (ex_select_rows_in [(NewIntDatum 1, NewIntDatum 2), (NewIntDatum 3, zeroDatum)])
           = Inr (None, c))"
proof -
  let ?E = "ex_collaborators"
  have a: "length (ua_children (the (fst (projr (tryWhereIn2BatchPointGet ?E ex_ctx
       (ex_select_pk_in [NewIntDatum 1, NewIntDatum 2])))))) = 2"
  proof -
    let ?s = "ex_select_pk_in [NewIntDatum 1, NewIntDatum 2]"
    let ?r = "tryWhereIn2BatchPointGet ?E ex_ctx ?s"
    have "\<not> isl ?r" and "fst (projr ?r) = Some (the (fst (projr ?r)))"
      by code_simp+
    then have run: "?r = Inr (Some (the (fst (projr ?r))), snd (projr ?r))"
      by (rule Inr_collapse)
    have w: "sel_Where ?s = Some (PatternInExpr (ex_colref ''c1'')
                                    [ValueExpr (NewIntDatum 1), ValueExpr (NewIntDatum 2)] False)"
      by (simp add: ex_select_pk_in_def ex_select_def)
    from C5_batch_all_or_nothing [where E = ?E and ctx = ex_ctx and selStmt = ?s
        and plan = "the (fst (projr ?r))" and ctx' = "snd (projr ?r)"] run w
    show ?thesis by auto
  qed
  have b: "\<exists>c. tryWhereIn2BatchPointGet ?E ex_ctx (ex_select_pk_in [NewIntDatum 1, zeroDatum])
             = Inr (None, c)"
  proof -
    let ?s = "ex_select_pk_in [NewIntDatum 1, zeroDatum]"
    let ?e = "ColumnNameExpr (ex_columnName ''c1'')"
    let ?l = "tryWhereIn2BatchPointGet_columnLoop ?E ex_ctx (reusedSelectStmt ?s) ?e
                [ValueExpr (NewIntDatum 1)] [] []"
    let ?t = "TryFastPlan ?E (snd (projr ?l)) (SelectStmtNode ((reusedSelectStmt ?s)
                \<lparr>sel_Where := Some (BinaryOperationExpr EQ ?e (ValueExpr zeroDatum))\<rparr>))"
    have w: "sel_Where ?s = Some (PatternInExpr ?e
                ([ValueExpr (NewIntDatum 1)] @ ValueExpr zeroDatum # []) False)"
      by (simp add: ex_select_pk_in_def ex_select_def ex_colref_def ex_columnName_def)
    have "\<not> isl ?l"
      and "fst (projr ?l) = Some (fst (the (fst (projr ?l))), snd (the (fst (projr ?l))))"
      by code_simp+
    then have l: "?l = Inr (Some (fst (the (fst (projr ?l))), snd (the (fst (projr ?l)))),
                            snd (projr ?l))"
      by (rule Inr_collapse)
    have "\<not> isl ?t" and "fst (projr ?t) = None"
      by code_simp+
    then have t: "?t = Inr (None, snd (projr ?t))"
      by (rule Inr_collapse)
    from C5_batch_all_or_nothing [where E = ?E and ctx = ex_ctx and selStmt = ?s
        and cn = "ex_columnName ''c1''" and pre = "[ValueExpr (NewIntDatum 1)]"
        and row = "ValueExpr zeroDatum" and post = "[]" and inNot = False
        and ?ch1.0 = "fst (the (fst (projr ?l)))" and ?pr1.0 = "snd (the (fst (projr ?l)))"
        and ?ctx1.0 = "snd (projr ?l)" and ?ctx2.0 = "snd (projr ?t)"] w l t
    show ?thesis by blast
  qed
  have c: "\<exists>c. tryWhereIn2BatchPointGet ?E ex_ctx
             (ex_select_rows_in [(NewIntDatum 1, NewIntDatum 2), (NewIntDatum 3, zeroDatum)])
           = Inr (None, c)"
  proof -
    let ?s = "ex_select_rows_in [(NewIntDatum 1, NewIntDatum 2), (NewIntDatum 3, zeroDatum)]"
    let ?ls = "[ex_colref ''a'', ex_colref ''b'']"
    let ?rs = "[ValueExpr (NewIntDatum 3), ValueExpr zeroDatum]"
    let ?l = "tryWhereIn2BatchPointGet_rowLoop ?E ex_ctx (reusedSelectStmt ?s) ?ls
                [RowExpr [ValueExpr (NewIntDatum 1), ValueExpr (NewIntDatum 2)]] [] []"
    let ?t = "TryFastPlan ?E (snd (projr ?l)) (SelectStmtNode ((reusedSelectStmt ?s)
                \<lparr>sel_Where := Some (rowWhere ?ls ?rs)\<rparr>))"
    have w: "sel_Where ?s = Some (PatternInExpr (RowExpr ?ls)
                ([RowExpr [ValueExpr (NewIntDatum 1), ValueExpr (NewIntDatum 2)]]
                 @ RowExpr ?rs # []) False)"
      by (simp add: ex_select_rows_in_def ex_select_def)
    have n: "length ?rs = length ?ls"
      by simp
    have "\<not> isl ?l"
      and "fst (projr ?l) = Some (fst (the (fst (projr ?l))), snd (the (fst (projr ?l))))"
      by code_simp+
    then have l: "?l = Inr (Some (fst (the (fst (projr ?l))), snd (the (fst (projr ?l)))),
                            snd (projr ?l))"
      by (rule Inr_collapse)
    have "\<not> isl ?t" and "fst (projr ?t) = None"
      by code_simp+
    then have t: "?t = Inr (None, snd (projr ?t))"
      by (rule Inr_collapse)
    from C5_batch_all_or_nothing [where E = ?E and ctx = ex_ctx and selStmt = ?s
        and leftValues = ?ls and pre = "[RowExpr [ValueExpr (NewIntDatum 1), ValueExpr (NewIntDatum 2)]]"
        and rightValues = ?rs and post = "[]" and inNot = False
        and ?ch1.0 = "fst (the (fst (projr ?l)))" and ?pr1.0 = "snd (the (fst (projr ?l)))"
        and ?ctx1.0 = "snd (projr ?l)" and ?ctx2.0 = "snd (projr ?t)"] w n l t
    show ?thesis by blast
  qed
  from a b c show ?thesis by blast
qed

text \<open>
  Claim C8. If the target table has partition metadata, or one of its columns is generated
  or not public, \<^verbatim>\<open>tryPointGetPlan\<close> returns nil whatever the predicate is, leaving the
  session as it was; and the index of a returned plan never has a prefix length.
\<close>
theorem C8_exclusions:
  "(getSingleTableNameAndAlias (sel_From selStmt) = (Some tblName, tblAlias)
      \<and> tn_TableInfo tblName = Some tbl
      \<and> (GetPartitionInfo tbl \<noteq> None
          \<or> (\<exists>col \<in> set (tbl_Columns tbl). IsGenerated col \<or> col_State col \<noteq> StatePublic))
      \<longrightarrow> tryPointGetPlan E ctx selStmt = (None, ctx))
   \<and> (tryPointGetPlan E ctx selStmt = (Some p, ctx') \<and> IndexInfo p = Some idx
      \<longrightarrow> \<not> HasPrefixIndex idx)"
proof (intro conjI impI)
  assume h: "getSingleTableNameAndAlias (sel_From selStmt) = (Some tblName, tblAlias)
      \<and> tn_TableInfo tblName = Some tbl
      \<and> (GetPartitionInfo tbl \<noteq> None
          \<or> (\<exists>col \<in> set (tbl_Columns tbl). IsGenerated col \<or> col_State col \<noteq> StatePublic))"
  then have "GetPartitionInfo tbl \<noteq> None
      \<or> list_ex (\<lambda>col. IsGenerated col \<or> col_State col \<noteq> StatePublic) (tbl_Columns tbl)"
    by (auto simp: list_ex_iff)
  with h show "tryPointGetPlan E ctx selStmt = (None, ctx)"
    by (auto simp: tryPointGetPlan_def Let_def split: option.splits sum.splits)
next
  assume "tryPointGetPlan E ctx selStmt = (Some p, ctx') \<and> IndexInfo p = Some idx"
  then show "\<not> HasPrefixIndex idx"
    using tryPointGetPlan_Some_index by blast
qed


theorem C8_exclusions_witness:
  "tryPointGetPlan ex_collaborators ex_ctx
     (ex_select ex_t1_partitioned (ex_eq ''c1'' (NewIntDatum 1)) SelectLockNone) = (None, ex_ctx)
   \<and> \<not> HasPrefixIndex (ex_index 1 ''PRIMARY'' [(''a'', 0), (''b'', 1)] True)"
proof -
  let ?s1 = "ex_select ex_t1_partitioned (ex_eq ''c1'' (NewIntDatum 1)) SelectLockNone"
  let ?tn = "\<lparr>tn_Schema = zeroCIStr, tn_Name = tbl_Name ex_t1_partitioned,
              tn_TableInfo = Some ex_t1_partitioned\<rparr>"
  let ?r = "tryPointGetPlan ex_collaborators ex_ctx ex_select_index_prune"
  have h1: "getSingleTableNameAndAlias (sel_From ?s1) = (Some ?tn, tbl_Name ex_t1_partitioned)
      \<and> tn_TableInfo ?tn = Some ex_t1_partitioned
      \<and> (GetPartitionInfo ex_t1_partitioned \<noteq> None
          \<or> (\<exists>col \<in> set (tbl_Columns ex_t1_partitioned).
                IsGenerated col \<or> col_State col \<noteq> StatePublic))"
    by code_simp
  have "fst ?r = Some (the (fst ?r))"
    by code_simp
  then have run: "?r = (Some (the (fst ?r)), snd ?r)"
    by (rule pair_collapse)
  have "IndexInfo (the (fst ?r)) = Some (ex_index 1 ''PRIMARY'' [(''a'', 0), (''b'', 1)] True)"
    by code_simp
  with run have h2: "?r = (Some (the (fst ?r)), snd ?r)
      \<and> IndexInfo (the (fst ?r)) = Some (ex_index 1 ''PRIMARY'' [(''a'', 0), (''b'', 1)] True)"
    by blast
  from h1 h2
    C8_exclusions [of ?s1 ?tn "tbl_Name ex_t1_partitioned" ex_t1_partitioned ex_collaborators ex_ctx]
    C8_exclusions [of ex_select_index_prune _ _ _ ex_collaborators ex_ctx "the (fst ?r)" "snd ?r"
      "ex_index 1 ''PRIMARY'' [(''a'', 0), (''b'', 1)] True"]
  show ?thesis by blast
qed

text \<open>
  Claim C6. When a \<^verbatim>\<open>SELECT ... FOR UPDATE\<close> yields a point-get plan, \<^verbatim>\<open>Lock\<close> and
  \<^verbatim>\<open>IsForUpdate\<close> are set exactly when autocommit is off or a transaction is open.
\<close>
theorem C6_select_for_update_lock:
  assumes "TryFastPlan E ctx (SelectStmtNode x) = Inr (Some (PointGet p), ctx')"
    and "sel_LockTp x = SelectLockForUpdate"
  shows "(Lock p \<longleftrightarrow> \<not> IsAutocommit ctx \<or> InTxn ctx)
       \<and> (IsForUpdate p \<longleftrightarrow> \<not> IsAutocommit ctx \<or> InTxn ctx)"
proof -
  have batch: "tryWhereIn2BatchPointGet E ctx x = Inr (None, ctx)"
    using assms(2) by (simp add: tryWhereIn2BatchPointGet_not_in)
  obtain r ctx2 where single: "tryPointGetPlan E ctx x = (r, ctx2)"
    by (cases "tryPointGetPlan E ctx x")
  from assms(1) batch single obtain fp where r: "r = Some fp"
    by (cases r) (auto simp: TryFastPlan.simps(1))
  obtain err ctx3 where priv: "checkFastPlanPrivilege ctx2 fp [SelectPriv] = (err, ctx3)"
    by (cases "checkFastPlanPrivilege ctx2 fp [SelectPriv]")
  from tryPointGetPlan_ctx [OF single]
  have c2: "IsAutocommit ctx2 = IsAutocommit ctx \<and> InTxn ctx2 = InTxn ctx" by auto
  from checkFastPlanPrivilege_frame [OF priv]
  have c3: "IsAutocommit ctx3 = IsAutocommit ctx2 \<and> InTxn ctx3 = InTxn ctx2" by auto
  from single r obtain tblName tblAlias where
    "getSingleTableNameAndAlias (sel_From x) = (Some tblName, tblAlias)"
    "tn_TableInfo tblName = Some (TblInfo fp)"
    using tryPointGetPlan_Some_table by blast
  with single r have flags: "\<not> Lock fp \<and> \<not> IsForUpdate fp"
    using tryPointGetPlan_Some_props by blast
  from assms batch single r priv c2 c3 flags show ?thesis
    by (auto simp: TryFastPlan.simps(1) split: option.splits if_splits)
qed


theorem C6_select_for_update_lock_witness:
  "TryFastPlan ex_collaborators ex_ctx_inTxn (SelectStmtNode (ex_select_pk SelectLockForUpdate))
     = Inr (Some (PointGet (pointGetPlan (the (fst (projr
         (TryFastPlan ex_collaborators ex_ctx_inTxn
            (SelectStmtNode (ex_select_pk SelectLockForUpdate)))))))),
           snd (projr (TryFastPlan ex_collaborators ex_ctx_inTxn
                  (SelectStmtNode (ex_select_pk SelectLockForUpdate)))))
   \<and> Lock (pointGetPlan (the (fst (projr
         (TryFastPlan ex_collaborators ex_ctx_inTxn
            (SelectStmtNode (ex_select_pk SelectLockForUpdate)))))))
   \<and> IsForUpdate (pointGetPlan (the (fst (projr
         (TryFastPlan ex_collaborators ex_ctx_inTxn
            (SelectStmtNode (ex_select_pk SelectLockForUpdate)))))))"
proof -
  let ?r = "TryFastPlan ex_collaborators ex_ctx_inTxn (SelectStmtNode (ex_select_pk SelectLockForUpdate))"
  have "\<not> isl ?r" and "fst (projr ?r) = Some (PointGet (pointGetPlan (the (fst (projr ?r)))))"
    by code_simp+
  then have run: "?r = Inr (Some (PointGet (pointGetPlan (the (fst (projr ?r))))), snd (projr ?r))"
    by (rule Inr_collapse)
  have lk: "sel_LockTp (ex_select_pk SelectLockForUpdate) = SelectLockForUpdate"
    by code_simp
  have tx: "InTxn ex_ctx_inTxn"
    by code_simp
  from C6_select_for_update_lock [OF run lk] tx run show ?thesis by blast
qed

text \<open>
  Claim C9, amended. When a fast plan is returned and a privilege manager is installed,
  \<^verbatim>\<open>RequestVerification\<close> has been called once for each required privilege, in order
  (\<^verbatim>\<open>SELECT\<close>, then \<^verbatim>\<open>UPDATE\<close> or \<^verbatim>\<open>DELETE\<close> for a mutation; one \<^verbatim>\<open>SELECT\<close> call for
  every child of a batch union), with the active roles and the statement's table, and every
  call was approved; without a privilege manager no call is made. The database argument
  of the calls is left open.
\<close>
theorem C9_privilege_verification:
  assumes "TryFastPlan E ctx node = Inr (Some plan, ctx')"
  shows "\<exists>tblName tblAlias tbl calls.
           getSingleTableNameAndAlias
             (case node of
                SelectStmtNode x \<Rightarrow> sel_From x
              | UpdateStmtNode u \<Rightarrow> upd_TableRefs u
              | DeleteStmtNode d \<Rightarrow> del_TableRefs d
              | OtherNode n \<Rightarrow> None) = (Some tblName, tblAlias)
         \<and> tn_TableInfo tblName = Some tbl
         \<and> Verifications ctx' = Verifications ctx @ calls
         \<and> (case PrivilegeManager ctx of
              None \<Rightarrow> calls = []
            | Some pm \<Rightarrow>
                map (\<lambda>(roles, db, t, c, k). (roles, t, c, k)) calls
                  = map (\<lambda>k. (ActiveRoles ctx, ci_L (tbl_Name tbl), [], k))
                      (case node of
                         SelectStmtNode x \<Rightarrow>
                           (case plan of
                              PhysicalUnionAll b sch children props \<Rightarrow>
                                replicate (length children) SelectPriv
                            | _ \<Rightarrow> [SelectPriv])
                       | UpdateStmtNode u \<Rightarrow> [SelectPriv, UpdatePriv]
                       | DeleteStmtNode d \<Rightarrow> [SelectPriv, DeletePriv]
                       | OtherNode n \<Rightarrow> [])
                \<and> (\<forall>(roles, db, t, c, k) \<in> set calls. pm roles db t c k))"
proof -
  define refs where "refs = (case node of
                SelectStmtNode x \<Rightarrow> sel_From x
              | UpdateStmtNode u \<Rightarrow> upd_TableRefs u
              | DeleteStmtNode d \<Rightarrow> del_TableRefs d
              | OtherNode n \<Rightarrow> None)"
  define kinds where "kinds = (case node of
                         SelectStmtNode x \<Rightarrow>
                           (case plan of
                              PhysicalUnionAll b sch children props \<Rightarrow>
                                replicate (length children) SelectPriv
                            | _ \<Rightarrow> [SelectPriv])
                       | UpdateStmtNode u \<Rightarrow> [SelectPriv, UpdatePriv]
                       | DeleteStmtNode d \<Rightarrow> [SelectPriv, DeletePriv]
                       | OtherNode n \<Rightarrow> [])"
  have main: "\<exists>vs. sessionStep ctx vs ctx' \<and> stmtTable refs \<noteq> None
      \<and> vs = privCalls ctx (ci_L (tbl_Name (the (stmtTable refs)))) kinds
      \<and> privApproved ctx (ci_L (tbl_Name (the (stmtTable refs)))) kinds"
  proof (cases node)
    case (SelectStmtNode x)
    from assms SelectStmtNode
    have run': "TryFastPlan E ctx (SelectStmtNode x) = Inr (Some plan, ctx')" by simp
    from TryFastPlan_select_result [OF run'] obtain vs where st: "sessionStep ctx vs ctx'"
      and f: "\<forall>plan'. Some plan = Some plan' \<longrightarrow>
            stmtTable (sel_From x) \<noteq> None
            \<and> privApproved ctx (ci_L (tbl_Name (the (stmtTable (sel_From x))))) [SelectPriv]
            \<and> ((\<exists>e l children.
                   sel_Where x = Some (PatternInExpr e l False)
                   \<and> plan' = PhysicalUnionAll True (the (stmtSchema E ctx (sel_From x) (sel_Fields x)))
                              children (replicate (length l) 1)
                   \<and> length children = length l
                   \<and> (\<forall>c \<in> set children.
                         schema c = the (stmtSchema E ctx (sel_From x) (sel_Fields x)))
                   \<and> vs = privCalls ctx (ci_L (tbl_Name (the (stmtTable (sel_From x)))))
                             (replicate (length children) SelectPriv))
                \<or> ((plan' = PhysicalTableDual (Some (the (stmtSchema E ctx (sel_From x) (sel_Fields x))))
                     \<or> (\<exists>p. plan' = PointGet p))
                    \<and> vs = privCalls ctx (ci_L (tbl_Name (the (stmtTable (sel_From x))))) [SelectPriv]))"
      by blast
    from f have tb: "stmtTable (sel_From x) \<noteq> None"
      and ap: "privApproved ctx (ci_L (tbl_Name (the (stmtTable (sel_From x))))) [SelectPriv]"
      by blast+
    from f have sh: "(\<exists>b sch children props.
                   plan = PhysicalUnionAll b sch children props
                   \<and> vs = privCalls ctx (ci_L (tbl_Name (the (stmtTable (sel_From x)))))
                             (replicate (length children) SelectPriv))
                \<or> ((\<exists>sch. plan = PhysicalTableDual sch) \<or> (\<exists>p. plan = PointGet p))
                    \<and> vs = privCalls ctx (ci_L (tbl_Name (the (stmtTable (sel_From x))))) [SelectPriv]"
      by blast
    have ap': "privApproved ctx t (replicate n SelectPriv)" if "privApproved ctx t [SelectPriv]" for t n
      using that by (auto simp: privApproved_def list_all_iff split: option.splits)
    from sh have "vs = privCalls ctx (ci_L (tbl_Name (the (stmtTable refs)))) kinds
        \<and> privApproved ctx (ci_L (tbl_Name (the (stmtTable refs)))) kinds"
      using ap ap' unfolding refs_def kinds_def SelectStmtNode by auto
    with st tb show ?thesis unfolding refs_def SelectStmtNode by auto
  next
    case (UpdateStmtNode u)
    with assms tryUpdatePointPlan_result [of E ctx u "Some plan" ctx'] show ?thesis
      unfolding refs_def kinds_def by auto
  next
    case (DeleteStmtNode d)
    with assms tryDeletePointPlan_result [of E ctx d "Some plan" ctx'] show ?thesis
      unfolding refs_def kinds_def by auto
  next
    case (OtherNode n)
    with assms show ?thesis by simp
  qed
  then obtain vs where st: "sessionStep ctx vs ctx'" and tb: "stmtTable refs \<noteq> None"
    and vs: "vs = privCalls ctx (ci_L (tbl_Name (the (stmtTable refs)))) kinds"
    and ap: "privApproved ctx (ci_L (tbl_Name (the (stmtTable refs)))) kinds"
    by blast
  from tb obtain tblName tblAlias tbl where t: "getSingleTableNameAndAlias refs = (Some tblName, tblAlias)"
    "tn_TableInfo tblName = Some tbl" "stmtTable refs = Some tbl"
    by (auto simp: stmtTable_def split: prod.splits option.splits)
  have log: "Verifications ctx' = Verifications ctx @ vs"
    using st by (simp add: sessionStep_def)
  have calls: "case PrivilegeManager ctx of
              None \<Rightarrow> vs = []
            | Some pm \<Rightarrow>
                map (\<lambda>(roles, db, t, c, k). (roles, t, c, k)) vs
                  = map (\<lambda>k. (ActiveRoles ctx, ci_L (tbl_Name tbl), [], k)) kinds
                \<and> (\<forall>(roles, db, t, c, k) \<in> set vs. pm roles db t c k)"
    using vs ap t(3) by (auto simp: privCalls_def privApproved_def list_all_iff split: option.splits)
  from t(1,2) log calls show ?thesis
    unfolding refs_def kinds_def by blast
qed

theorem C9_privilege_verification_witness:
  "length (Verifications (snd (projr (TryFastPlan ex_collaborators ex_ctx
       (UpdateStmtNode ex_update_pk))))) = 2"
proof -
  let ?r = "TryFastPlan ex_collaborators ex_ctx (UpdateStmtNode ex_update_pk)"
  have "\<not> isl ?r" and "fst (projr ?r) = Some (the (fst (projr ?r)))"
    by code_simp+
  then have run: "?r = Inr (Some (the (fst (projr ?r))), snd (projr ?r))"
    by (rule Inr_collapse)
  have pm: "PrivilegeManager ex_ctx = Some (\<lambda>roles db tbl col priv. True)"
    and log: "Verifications ex_ctx = []"
    by (simp_all add: ex_ctx_def)
  from C9_privilege_verification [OF run]
  have "\<exists>calls. Verifications (snd (projr ?r)) = Verifications ex_ctx @ calls
          \<and> length (map (\<lambda>(roles, db, t, c, k). (roles, t, c, k)) calls) = 2"
    unfolding pm by clarsimp
  with log show ?thesis
    by auto
qed

text \<open>
  The claim as stated says exactly one verification call: the fast plan for
  \<^verbatim>\<open>UPDATE t1 SET c2 = 2 WHERE c1 = 1\<close> is returned after two.
\<close>

theorem C9_one_call_counterexample:
  "fst (projr (TryFastPlan ex_collaborators ex_ctx (UpdateStmtNode ex_update_pk))) \<noteq> None
   \<and> Verifications ex_ctx = []
   \<and> Verifications (snd (projr (TryFastPlan ex_collaborators ex_ctx (UpdateStmtNode ex_update_pk))))
       = [([], ''test'', ''t1'', [], SelectPriv), ([], ''test'', ''t1'', [], UpdatePriv)]"
  by code_simp




end
